theory Spec2Isabelle
  imports Main "HOL-Library.Word"
begin

section \<open>The credential builder of the RabbitMQ service broker\<close>

text \<open>
  This theory embeds \<^verbatim>\<open>servicebroker/broker/bind.go\<close>: the type \<^verbatim>\<open>Builder\<close>, its
  method \<^verbatim>\<open>Build\<close> and every method \<^verbatim>\<open>Build\<close> calls. Go strings are byte sequences and
  are modelled as \<^typ>\<open>string\<close> (a list of 8-bit characters); Go's \<^verbatim>\<open>int\<close> is the 64-bit
  signed integer of the platforms the broker runs on and is modelled as a 64-bit word
  read with \<^const>\<open>sint\<close>; a slice is a list; the map \<^verbatim>\<open>protocols\<close> is a partial function.
  The map \<^verbatim>\<open>ProtocolPorts\<close> is iterated by a \<^verbatim>\<open>range\<close> loop, so it is the list of its
  entries in the order the loop visits them. A run-time panic is a value of its own,
  distinct from an \<^verbatim>\<open>error\<close> that \<^verbatim>\<open>Build\<close> returns.
\<close>

subsection \<open>Data\<close>

type_synonym go_int = "64 word"

record Builder =
  MgmtDomain :: string
  Hostnames :: "string list"
  VHost :: string
  Username :: string
  Password :: string
  TLS :: bool
  ProtocolPorts :: "(string \<times> go_int) list"

record protocol =
  Username :: string
  Password :: string
  VHost :: string
  Hostname :: string
  Hostnames :: "string list"
  URI :: string
  URIs :: "string list"
  Port :: go_int
  TLS :: bool
  Path :: string

type_synonym protocols = "string \<rightharpoonup> protocol"

record binding =
  DashboardURL :: string
  Username :: string
  Password :: string
  Hostname :: string
  Hostnames :: "string list"
  HTTPAPIURI :: string
  HTTPAPIURIs :: "string list"
  URI :: string
  URIs :: "string list"
  VHost :: string
  TLS :: bool
  Protocols :: protocols

text \<open>
  Indexing a slice out of range panics. \<open>IndexOutOfRange i n\<close> is Go's
  \<^verbatim>\<open>index out of range [i] with length n\<close>.
\<close>

datatype runtime_error = IndexOutOfRange nat nat

datatype 'a outcome = Panic runtime_error | Done 'a

definition index_slice :: "'a list \<Rightarrow> nat \<Rightarrow> 'a outcome" where
  "index_slice xs i = (if i < length xs then Done (xs ! i) else Panic (IndexOutOfRange i (length xs)))"

subsection \<open>Formatting\<close>

text \<open>
  \<^verbatim>\<open>fmt.Sprintf\<close> with the verb \<^verbatim>\<open>%s\<close> copies the bytes of its argument and with
  \<^verbatim>\<open>%d\<close> writes a signed integer in decimal: \<open>utoa\<close> writes the digits of a natural
  number and \<open>itoa\<close> puts the sign in front.
\<close>

fun utoa :: "nat \<Rightarrow> string" where
  "utoa n = (if n < 10 then [''0123456789'' ! n]
             else utoa (n div 10) @ [''0123456789'' ! (n mod 10)])"

declare utoa.simps [simp del]

definition itoa :: "int \<Rightarrow> string" where
  "itoa i = (if i < 0 then CHR ''-'' # utoa (nat (- i)) else utoa (nat i))"

text \<open>
  The loop \<^verbatim>\<open>for _, hostname := range b.Hostnames { uris = append(uris, f(hostname)) }\<close>
  that the three list builders share, with \<open>uris\<close> the slice built so far.
\<close>

fun range_append :: "(string \<Rightarrow> string) \<Rightarrow> string list \<Rightarrow> string list \<Rightarrow> string list" where
  "range_append f [] uris = uris"
| "range_append f (hostname # rest) uris = range_append f rest (uris @ [f hostname])"

subsection \<open>The methods of \<^verbatim>\<open>Builder\<close>\<close>

definition dashboardURL :: "Builder \<Rightarrow> string" where
  "dashboardURL b =
     ''http://'' @ MgmtDomain b @ ''/#/login/'' @ Builder.Username b @ ''/'' @ Builder.Password b"

definition uriForBinding :: "Builder \<Rightarrow> string \<Rightarrow> string" where
  "uriForBinding b hostname =
     ''amqp'' @ ''://'' @ Builder.Username b @ '':'' @ Builder.Password b @ ''@'' @ hostname
       @ ''/'' @ Builder.VHost b"

definition urisForBinding :: "Builder \<Rightarrow> string list" where
  "urisForBinding b = range_append (uriForBinding b) (Builder.Hostnames b) []"

definition httpapiuriForBinding :: "Builder \<Rightarrow> string" where
  "httpapiuriForBinding b =
     ''http://'' @ Builder.Username b @ '':'' @ Builder.Password b @ ''@'' @ MgmtDomain b @ ''/api/''"

definition httpapiurisForBinding :: "Builder \<Rightarrow> string list" where
  "httpapiurisForBinding b = [httpapiuriForBinding b]"

definition uriForAMQP :: "Builder \<Rightarrow> string \<Rightarrow> go_int \<Rightarrow> string" where
  "uriForAMQP b hostname port =
     ''amqp'' @ ''://'' @ Builder.Username b @ '':'' @ Builder.Password b @ ''@'' @ hostname
       @ '':'' @ itoa (sint port) @ ''/'' @ Builder.VHost b"

definition urisForAMQP :: "Builder \<Rightarrow> go_int \<Rightarrow> string list" where
  "urisForAMQP b port = range_append (\<lambda>hostname. uriForAMQP b hostname port) (Builder.Hostnames b) []"

definition uriForManagement :: "Builder \<Rightarrow> string \<Rightarrow> go_int \<Rightarrow> string" where
  "uriForManagement b hostname port =
     ''http://'' @ Builder.Username b @ '':'' @ Builder.Password b @ ''@'' @ hostname
       @ '':'' @ itoa (sint port) @ ''/api/''"

definition urisForManagement :: "Builder \<Rightarrow> go_int \<Rightarrow> string list" where
  "urisForManagement b port =
     range_append (\<lambda>hostname. uriForManagement b hostname port) (Builder.Hostnames b) []"

text \<open>
  \<^verbatim>\<open>addAMQPProtocol\<close> and \<^verbatim>\<open>addMgmtProtocol\<close> read \<^verbatim>\<open>b.Hostnames[0]\<close> twice each; the
  two reads see the same slice, so one case distinction stands for both. A field the
  struct literal leaves out has the zero value of its type: \<^verbatim>\<open>Path\<close> is empty in the
  AMQP descriptor and \<^verbatim>\<open>VHost\<close> is empty in the management descriptor.
\<close>

definition addAMQPProtocol :: "Builder \<Rightarrow> go_int \<Rightarrow> bool \<Rightarrow> protocol outcome" where
  "addAMQPProtocol b port tls =
     (case index_slice (Builder.Hostnames b) 0 of
        Panic e \<Rightarrow> Panic e
      | Done h0 \<Rightarrow>
          Done \<lparr>protocol.Username = Builder.Username b,
                protocol.Password = Builder.Password b,
                protocol.VHost = Builder.VHost b,
                protocol.Hostname = h0,
                protocol.Hostnames = Builder.Hostnames b,
                protocol.URI = uriForAMQP b h0 port,
                protocol.URIs = urisForAMQP b port,
                protocol.Port = port,
                protocol.TLS = tls,
                protocol.Path = []\<rparr>)"

definition addMgmtProtocol :: "Builder \<Rightarrow> protocol outcome" where
  "addMgmtProtocol b =
     (case index_slice (Builder.Hostnames b) 0 of
        Panic e \<Rightarrow> Panic e
      | Done h0 \<Rightarrow>
          Done \<lparr>protocol.Username = Builder.Username b,
                protocol.Password = Builder.Password b,
                protocol.VHost = [],
                protocol.Hostname = h0,
                protocol.Hostnames = Builder.Hostnames b,
                protocol.URI = uriForManagement b h0 15672,
                protocol.URIs = urisForManagement b 15672,
                protocol.Port = 15672,
                protocol.TLS = False,
                protocol.Path = ''/api/''\<rparr>)"

text \<open>
  The \<^verbatim>\<open>range\<close> loop of \<^verbatim>\<open>protocols\<close> over the entries of \<^verbatim>\<open>ProtocolPorts\<close>: the
  \<^verbatim>\<open>switch\<close> has the single case \<^verbatim>\<open>"amqp"\<close>, and every other key falls through it.
\<close>

fun protocols_loop :: "Builder \<Rightarrow> (string \<times> go_int) list \<Rightarrow> protocols \<Rightarrow> protocols outcome" where
  "protocols_loop b [] ps = Done ps"
| "protocols_loop b ((protocol, port) # rest) ps =
     (if protocol = ''amqp'' then
        (case addAMQPProtocol b port False of
           Panic e \<Rightarrow> Panic e
         | Done p \<Rightarrow> protocols_loop b rest (ps(''amqp'' \<mapsto> p)))
      else protocols_loop b rest ps)"

definition protocols :: "Builder \<Rightarrow> protocols outcome" where
  "protocols b =
     (case protocols_loop b (ProtocolPorts b) Map.empty of
        Panic e \<Rightarrow> Panic e
      | Done ps \<Rightarrow>
          (case addMgmtProtocol b of
             Panic e \<Rightarrow> Panic e
           | Done m \<Rightarrow> Done (ps(''management'' \<mapsto> m))))"

subsection \<open>The JSON round trip\<close>

text \<open>
  \<^verbatim>\<open>Build\<close> passes its struct through \<^verbatim>\<open>json.Marshal\<close> and \<^verbatim>\<open>json.Unmarshal\<close> of Go's
  standard library, which is not part of the repository. The model follows the
  documented behaviour of package \<^verbatim>\<open>encoding/json\<close> at the level of the JSON document:
  \<^item> a struct is an object with one member per field, under the name of its \<^verbatim>\<open>json\<close>
    tag; a field tagged \<^verbatim>\<open>omitempty\<close> is left out when it is the empty string;
  \<^item> a map with string keys is an object with one member per key;
  \<^item> a string is written coerced to valid UTF-8: every byte that starts no well-formed
    UTF-8 sequence becomes the replacement character U+FFFD; the escapes the encoder
    writes are undone by the decoder, so they leave no trace;
  \<^item> an integer is written in decimal, a boolean as itself, a slice as an array;
  \<^item> decoding into an empty \<^verbatim>\<open>interface{}\<close> yields \<^verbatim>\<open>map[string]interface{}\<close> for an
    object, \<^verbatim>\<open>[]interface{}\<close> for an array, \<^verbatim>\<open>float64\<close> for a number (the nearest
    float64, ties to even), and \<^verbatim>\<open>string\<close>, \<^verbatim>\<open>bool\<close> and \<^verbatim>\<open>nil\<close> for the rest.
  The concrete syntax of the bytes between the two calls is not modelled.
\<close>

datatype json =
    JNull
  | JBool bool
  | JNumber int
  | JString string
  | JArray "json list"
  | JObject "string \<Rightarrow> json option"

text \<open>
  The values of \<^verbatim>\<open>interface{}\<close> that decoding produces. Every number of a document
  written from a \<^verbatim>\<open>binding\<close> is an integer, and so is the float64 nearest to it:
  \<open>GFloat64 n\<close> is the float64 whose value is the integer \<open>n\<close>.
\<close>

datatype gen =
    GNil
  | GBool bool
  | GFloat64 int
  | GString string
  | GSlice "gen list"
  | GMap "string \<Rightarrow> gen option"

text \<open>
  The first byte of a UTF-8 sequence fixes its length and the range of its second byte
  (the table \<^verbatim>\<open>first\<close> and the \<^verbatim>\<open>acceptRanges\<close> of package \<^verbatim>\<open>unicode/utf8\<close>).
\<close>

datatype lead = Ascii | Invalid | Lead nat nat nat

definition first :: "nat \<Rightarrow> lead" where
  "first x =
     (if x < 0x80 then Ascii
      else if x < 0xC2 then Invalid
      else if x < 0xE0 then Lead 2 0x80 0xBF
      else if x = 0xE0 then Lead 3 0xA0 0xBF
      else if x < 0xED then Lead 3 0x80 0xBF
      else if x = 0xED then Lead 3 0x80 0x9F
      else if x < 0xF0 then Lead 3 0x80 0xBF
      else if x = 0xF0 then Lead 4 0x90 0xBF
      else if x < 0xF4 then Lead 4 0x80 0xBF
      else if x = 0xF4 then Lead 4 0x80 0x8F
      else Invalid)"

definition between :: "nat \<Rightarrow> nat \<Rightarrow> char \<Rightarrow> bool" where
  "between lo hi c = (lo \<le> of_char c \<and> of_char c \<le> hi)"

text \<open>
  \<open>rune_size s\<close> is the number of bytes of the well-formed UTF-8 sequence at the head
  of \<open>s\<close>, and 0 when there is none (\<^verbatim>\<open>utf8.DecodeRuneInString\<close> then returns
  \<^verbatim>\<open>RuneError\<close> with size 0 for the empty string and size 1 otherwise).
\<close>

fun rune_size :: "string \<Rightarrow> nat" where
  "rune_size [] = 0"
| "rune_size (s0 # s) =
     (case first (of_char s0) of
        Ascii \<Rightarrow> 1
      | Invalid \<Rightarrow> 0
      | Lead sz lo hi \<Rightarrow>
          if Suc (length s) < sz then 0
          else if \<not> between lo hi (s ! 0) then 0
          else if sz \<le> 2 then 2
          else if \<not> between 0x80 0xBF (s ! 1) then 0
          else if sz \<le> 3 then 3
          else if \<not> between 0x80 0xBF (s ! 2) then 0
          else 4)"

text \<open>
  The string a JSON string literal written by the encoder stands for. The first
  argument counts the bytes of the current well-formed sequence still to be copied; at
  0 a new sequence starts, and a byte that starts none is replaced by the three bytes
  of U+FFFD.
\<close>

fun coerce_from :: "nat \<Rightarrow> string \<Rightarrow> string" where
  "coerce_from k [] = []"
| "coerce_from (Suc k) (c # s) = c # coerce_from k s"
| "coerce_from 0 (c # s) =
     (case rune_size (c # s) of
        0 \<Rightarrow> [CHR 0xEF, CHR 0xBF, CHR 0xBD] @ coerce_from 0 s
      | Suc k \<Rightarrow> c # coerce_from k s)"

definition json_string :: "string \<Rightarrow> string" where
  "json_string s = coerce_from 0 s"

text \<open>\<^verbatim>\<open>utf8.ValidString\<close>, with the same counter.\<close>

fun valid_from :: "nat \<Rightarrow> string \<Rightarrow> bool" where
  "valid_from k [] = True"
| "valid_from (Suc k) (c # s) = valid_from k s"
| "valid_from 0 (c # s) =
     (case rune_size (c # s) of
        0 \<Rightarrow> False
      | Suc k \<Rightarrow> valid_from k s)"

definition ValidString :: "string \<Rightarrow> bool" where
  "ValidString s = valid_from 0 s"

text \<open>
  The float64 nearest to an integer, as an integer: below \<open>2 ^ 53\<close> in magnitude the
  integer itself; above, its 53 leading bits, rounded to nearest with ties to even,
  followed by zeros. \<open>excess_bits a\<close> is the number of bits of \<open>a\<close> beyond 53.
\<close>

function excess_bits :: "nat \<Rightarrow> nat" where
  "excess_bits a = (if a < 2 ^ 53 then 0 else Suc (excess_bits (a div 2)))"
  by pat_completeness auto
termination
  by (relation "measure (\<lambda>a. a)") auto

declare excess_bits.simps [simp del]

definition float64_of_int :: "int \<Rightarrow> int" where
  "float64_of_int n =
     (let a = nat \<bar>n\<bar>;
          e = excess_bits a;
          q = a div 2 ^ e;
          r = a mod 2 ^ e;
          q' = (if 2 ^ e < 2 * r \<or> (2 * r = 2 ^ e \<and> odd q) then q + 1 else q)
      in sgn n * int (q' * 2 ^ e))"

definition marshal_string :: "string \<Rightarrow> json" where
  "marshal_string s = JString (json_string s)"

text \<open>
  Every slice that reaches the encoder from \<^verbatim>\<open>Build\<close> has an element (the nil slice,
  which is written \<^verbatim>\<open>null\<close>, does not occur), so a slice is written as an array.
\<close>

definition marshal_strings :: "string list \<Rightarrow> json" where
  "marshal_strings xs = JArray (map marshal_string xs)"

definition omitempty :: "string \<Rightarrow> string \<Rightarrow> (string \<times> json) list" where
  "omitempty name s = (if s = [] then [] else [(name, marshal_string s)])"

definition protocol_members :: "protocol \<Rightarrow> (string \<times> json) list" where
  "protocol_members p =
     [(''username'', marshal_string (protocol.Username p)),
      (''password'', marshal_string (protocol.Password p))]
     @ omitempty ''vhost'' (protocol.VHost p)
     @ [(''host'', marshal_string (protocol.Hostname p)),
        (''hosts'', marshal_strings (protocol.Hostnames p)),
        (''uri'', marshal_string (protocol.URI p)),
        (''uris'', marshal_strings (protocol.URIs p)),
        (''port'', JNumber (sint (protocol.Port p))),
        (''ssl'', JBool (protocol.TLS p))]
     @ omitempty ''path'' (protocol.Path p)"

definition marshal_protocol :: "protocol \<Rightarrow> json" where
  "marshal_protocol p = JObject (map_of (protocol_members p))"

text \<open>
  The keys of the map \<^verbatim>\<open>protocols\<close> are written as JSON strings too; the only keys the
  builder stores are the ASCII literals \<^verbatim>\<open>"amqp"\<close> and \<^verbatim>\<open>"management"\<close>, which the
  coercion leaves as they are.
\<close>

definition marshal_protocols :: "protocols \<Rightarrow> json" where
  "marshal_protocols ps = JObject (map_option marshal_protocol \<circ> ps)"

definition binding_members :: "binding \<Rightarrow> (string \<times> json) list" where
  "binding_members x =
     [(''dashboard_url'', marshal_string (DashboardURL x)),
      (''username'', marshal_string (binding.Username x)),
      (''password'', marshal_string (binding.Password x)),
      (''hostname'', marshal_string (binding.Hostname x)),
      (''hostnames'', marshal_strings (binding.Hostnames x)),
      (''http_api_uri'', marshal_string (HTTPAPIURI x)),
      (''http_api_uris'', marshal_strings (HTTPAPIURIs x)),
      (''uri'', marshal_string (binding.URI x)),
      (''uris'', marshal_strings (binding.URIs x)),
      (''vhost'', marshal_string (binding.VHost x)),
      (''ssl'', JBool (binding.TLS x)),
      (''protocols'', marshal_protocols (Protocols x))]"

definition marshal_binding :: "binding \<Rightarrow> json" where
  "marshal_binding x = JObject (map_of (binding_members x))"

primrec decode :: "json \<Rightarrow> gen" where
  "decode JNull = GNil"
| "decode (JBool v) = GBool v"
| "decode (JNumber n) = GFloat64 (float64_of_int n)"
| "decode (JString s) = GString s"
| "decode (JArray xs) = GSlice (map decode xs)"
| "decode (JObject m) = GMap (map_option decode \<circ> m)"

text \<open>
  The two calls as \<^verbatim>\<open>Build\<close> sees them, with their error results. \<^verbatim>\<open>json.Marshal\<close>
  returns an error for a value it cannot write (a channel, a function, a complex
  number, a NaN or an infinity, cyclic data, a custom marshaler that fails); the type
  \<^verbatim>\<open>binding\<close> holds strings, booleans, integers, slices of strings and a map with
  string keys only. \<^verbatim>\<open>json.Unmarshal\<close> returns an error for malformed text or for a
  value that does not fit the target's type; here it reads what \<^verbatim>\<open>json.Marshal\<close>
  wrote, into an empty interface.
\<close>

datatype error = UnsupportedValueError | SyntaxError

definition json_Marshal :: "binding \<Rightarrow> error + json" where
  "json_Marshal v = Inr (marshal_binding v)"

definition json_Unmarshal :: "json \<Rightarrow> error + gen" where
  "json_Unmarshal bytes = Inr (decode bytes)"

subsection \<open>\<^verbatim>\<open>Build\<close>\<close>

text \<open>
  \<open>Build_bind\<close> is the struct literal \<^verbatim>\<open>bind\<close> of \<^verbatim>\<open>Build\<close>. Go evaluates its fields in
  the order written: \<^verbatim>\<open>b.Hostnames[0]\<close> is read for \<^verbatim>\<open>Hostname\<close> before
  \<^verbatim>\<open>b.protocols()\<close> is called, and read again (with the same result) for \<^verbatim>\<open>URI\<close>.
\<close>

definition Build_bind :: "Builder \<Rightarrow> binding outcome" where
  "Build_bind b =
     (case index_slice (Builder.Hostnames b) 0 of
        Panic e \<Rightarrow> Panic e
      | Done h0 \<Rightarrow>
          (case protocols b of
             Panic e \<Rightarrow> Panic e
           | Done ps \<Rightarrow>
               Done \<lparr>DashboardURL = dashboardURL b,
                     binding.Username = Builder.Username b,
                     binding.Password = Builder.Password b,
                     binding.Hostname = h0,
                     binding.Hostnames = Builder.Hostnames b,
                     HTTPAPIURI = httpapiuriForBinding b,
                     HTTPAPIURIs = httpapiurisForBinding b,
                     binding.URI = uriForBinding b h0,
                     binding.URIs = urisForBinding b,
                     binding.VHost = Builder.VHost b,
                     binding.TLS = Builder.TLS b,
                     Protocols = ps\<rparr>))"

text \<open>
  \<^verbatim>\<open>Build\<close> returns the pair \<^verbatim>\<open>(output, err)\<close>; \<open>None\<close> is the nil error and \<open>GNil\<close> the
  nil \<^verbatim>\<open>output\<close>, which is what \<^verbatim>\<open>output\<close> still is when \<^verbatim>\<open>json.Marshal\<close> fails. (After
  a failed \<^verbatim>\<open>json.Unmarshal\<close> the Go variable holds whatever the decoder had stored; the
  model writes \<open>GNil\<close> there.)
\<close>

definition Build :: "Builder \<Rightarrow> (gen \<times> error option) outcome" where
  "Build b =
     (case Build_bind b of
        Panic e \<Rightarrow> Panic e
      | Done bind \<Rightarrow>
          (case json_Marshal bind of
             Inl err \<Rightarrow> Done (GNil, Some err)
           | Inr bytes \<Rightarrow>
               (case json_Unmarshal bytes of
                  Inl err \<Rightarrow> Done (GNil, Some err)
                | Inr output \<Rightarrow> Done (output, None))))"

subsection \<open>Reading the output\<close>

text \<open>
  \<open>member k v\<close> is \<^verbatim>\<open>v[k]\<close> for a decoded object \<open>v\<close>, and \<open>at_path\<close> follows a list
  of keys from the outside in.
\<close>

fun member :: "string \<Rightarrow> gen \<Rightarrow> gen option" where
  "member k (GMap m) = m k"
| "member k _ = None"

fun at_path :: "string list \<Rightarrow> gen \<Rightarrow> gen option" where
  "at_path [] v = Some v"
| "at_path (k # ks) v = (case member k v of None \<Rightarrow> None | Some w \<Rightarrow> at_path ks w)"

fun keys :: "gen \<Rightarrow> string set" where
  "keys (GMap m) = dom m"
| "keys _ = {}"

text \<open>
  \<open>returns_error r\<close>: the call returned to its caller with a non-nil \<^verbatim>\<open>err\<close>.
\<close>

definition returns_error :: "(gen \<times> error option) outcome \<Rightarrow> bool" where
  "returns_error r = (case r of Panic e \<Rightarrow> False | Done (out, err) \<Rightarrow> err \<noteq> None)"

subsection \<open>What the round trip is to keep\<close>

text \<open>
  The comparison behind the statement that encoding a \<^verbatim>\<open>binding\<close> and decoding it
  again yields a record equal in all specified fields: the decoded object has, under
  the name of each field, the value of that field (a string as a string, a slice of
  strings as a slice of them, an integer as the number of the same value, a boolean as
  a boolean); the two optional fields of a descriptor, \<^verbatim>\<open>vhost\<close> and \<^verbatim>\<open>path\<close>, are
  absent when empty; and the decoded \<^verbatim>\<open>protocols\<close> has a descriptor for exactly the
  keys of the map.
\<close>

definition same_protocol :: "protocol \<Rightarrow> gen \<Rightarrow> bool" where
  "same_protocol p d \<longleftrightarrow>
     member ''username'' d = Some (GString (protocol.Username p))
     \<and> member ''password'' d = Some (GString (protocol.Password p))
     \<and> member ''vhost'' d
         = (if protocol.VHost p = [] then None else Some (GString (protocol.VHost p)))
     \<and> member ''host'' d = Some (GString (protocol.Hostname p))
     \<and> member ''hosts'' d = Some (GSlice (map GString (protocol.Hostnames p)))
     \<and> member ''uri'' d = Some (GString (protocol.URI p))
     \<and> member ''uris'' d = Some (GSlice (map GString (protocol.URIs p)))
     \<and> member ''port'' d = Some (GFloat64 (sint (protocol.Port p)))
     \<and> member ''ssl'' d = Some (GBool (protocol.TLS p))
     \<and> member ''path'' d
         = (if protocol.Path p = [] then None else Some (GString (protocol.Path p)))"

definition same_protocols :: "protocols \<Rightarrow> gen \<Rightarrow> bool" where
  "same_protocols ps g \<longleftrightarrow>
     (\<forall>name. case ps name of
        None \<Rightarrow> member name g = None
      | Some p \<Rightarrow> (case member name g of None \<Rightarrow> False | Some d \<Rightarrow> same_protocol p d))"

definition same_binding :: "binding \<Rightarrow> gen \<Rightarrow> bool" where
  "same_binding x out \<longleftrightarrow>
     member ''dashboard_url'' out = Some (GString (DashboardURL x))
     \<and> member ''username'' out = Some (GString (binding.Username x))
     \<and> member ''password'' out = Some (GString (binding.Password x))
     \<and> member ''hostname'' out = Some (GString (binding.Hostname x))
     \<and> member ''hostnames'' out = Some (GSlice (map GString (binding.Hostnames x)))
     \<and> member ''http_api_uri'' out = Some (GString (HTTPAPIURI x))
     \<and> member ''http_api_uris'' out = Some (GSlice (map GString (HTTPAPIURIs x)))
     \<and> member ''uri'' out = Some (GString (binding.URI x))
     \<and> member ''uris'' out = Some (GSlice (map GString (binding.URIs x)))
     \<and> member ''vhost'' out = Some (GString (binding.VHost x))
     \<and> member ''ssl'' out = Some (GBool (binding.TLS x))
     \<and> (case member ''protocols'' out of
           None \<Rightarrow> False
         | Some g \<Rightarrow> same_protocols (Protocols x) g)"

text \<open>
  \<open>round_trip_faithful b\<close>: \<^verbatim>\<open>Build\<close> returns, without an error, an output equal in
  that sense to the struct it built.
\<close>

definition round_trip_faithful :: "Builder \<Rightarrow> bool" where
  "round_trip_faithful b =
     (case Build_bind b of
        Panic e \<Rightarrow> False
      | Done bind \<Rightarrow>
          (case Build b of
             Panic e \<Rightarrow> False
           | Done (output, err) \<Rightarrow> err = None \<and> same_binding bind output))"

subsection \<open>Configurations\<close>

text \<open>Scenario A of the specification, for either value of the TLS flag.\<close>

definition scenario_A :: "bool \<Rightarrow> Builder" where
  "scenario_A tls =
     \<lparr>MgmtDomain = ''10.0.0.5:15672'',
      Builder.Hostnames = [''10.0.0.5''],
      Builder.VHost = ''%2f'',
      Builder.Username = ''u'',
      Builder.Password = ''p'',
      Builder.TLS = tls,
      ProtocolPorts = [(''amqp'', 5672)]\<rparr>"

text \<open>
  The configuration \<^verbatim>\<open>Bind\<close> assembles for a service at 10.0.0.5, with the three
  protocol ports it always passes, and TLS switched on.
\<close>

definition bind_config :: Builder where
  "bind_config =
     \<lparr>MgmtDomain = ''10.0.0.5:15672'',
      Builder.Hostnames = [''10.0.0.5''],
      Builder.VHost = ''%2f'',
      Builder.Username = ''admin'',
      Builder.Password = ''secret'',
      Builder.TLS = True,
      ProtocolPorts = [(''amqp'', 5672), (''clustering'', 25672), (''http'', 15672)]\<rparr>"

text \<open>A configuration with no hostname.\<close>

definition no_hostnames :: Builder where
  "no_hostnames =
     \<lparr>MgmtDomain = ''10.0.0.5:15672'',
      Builder.Hostnames = [],
      Builder.VHost = ''%2f'',
      Builder.Username = ''u'',
      Builder.Password = ''p'',
      Builder.TLS = False,
      ProtocolPorts = [(''amqp'', 5672)]\<rparr>"

text \<open>Scenario B of the specification: two hostnames.\<close>

definition scenario_B :: Builder where
  "scenario_B =
     \<lparr>MgmtDomain = ''h1:15672'',
      Builder.Hostnames = [''h1'', ''h2''],
      Builder.VHost = ''%2f'',
      Builder.Username = ''u'',
      Builder.Password = ''p'',
      Builder.TLS = False,
      ProtocolPorts = [(''amqp'', 5672)]\<rparr>"

text \<open>A configuration whose vhost is the empty string.\<close>

definition empty_vhost :: Builder where
  "empty_vhost =
     \<lparr>MgmtDomain = ''10.0.0.5:15672'',
      Builder.Hostnames = [''10.0.0.5''],
      Builder.VHost = [],
      Builder.Username = ''u'',
      Builder.Password = ''p'',
      Builder.TLS = False,
      ProtocolPorts = [(''amqp'', 5672)]\<rparr>"

text \<open>
  A user name that is the single byte \<^verbatim>\<open>0xFF\<close>, which is not UTF-8, and an AMQP port of
  \<open>2 ^ 53 + 1\<close>, which is no float64.
\<close>

definition invalid_utf8_user :: Builder where
  "invalid_utf8_user =
     \<lparr>MgmtDomain = ''10.0.0.5:15672'',
      Builder.Hostnames = [''10.0.0.5''],
      Builder.VHost = ''%2f'',
      Builder.Username = [CHR 0xFF],
      Builder.Password = ''p'',
      Builder.TLS = False,
      ProtocolPorts = [(''amqp'', 5672)]\<rparr>"

definition huge_port :: Builder where
  "huge_port =
     \<lparr>MgmtDomain = ''10.0.0.5:15672'',
      Builder.Hostnames = [''10.0.0.5''],
      Builder.VHost = ''%2f'',
      Builder.Username = ''u'',
      Builder.Password = ''p'',
      Builder.TLS = False,
      ProtocolPorts = [(''amqp'', 9007199254740993)]\<rparr>"

section \<open>Properties\<close>

subsection \<open>Evaluation on numerals\<close>

lemma utoa_numeral:
  "utoa (numeral k) =
     (if numeral k < (10::nat) then [''0123456789'' ! numeral k]
      else utoa (numeral k div 10) @ [''0123456789'' ! (numeral k mod 10)])"
  by (rule utoa.simps)

lemma utoa_0: "utoa 0 = ''0''"
  by (simp add: utoa.simps)

lemma utoa_1: "utoa 1 = ''1''"
  by (simp add: utoa.simps)

lemma utoa_Suc_0: "utoa (Suc 0) = ''1''"
  by (simp add: utoa.simps)

lemmas utoa_eval = utoa_numeral utoa_0 utoa_1 utoa_Suc_0

lemma excess_bits_numeral:
  "excess_bits (numeral k) =
     (if numeral k < (2::nat) ^ 53 then 0 else Suc (excess_bits (numeral k div 2)))"
  by (rule excess_bits.simps)

lemma coerce_from_numeral:
  "coerce_from (numeral k) (c # s) = c # coerce_from (pred_numeral k) s"
  by (simp add: numeral_eq_Suc)

lemma valid_from_numeral:
  "valid_from (numeral k) (c # s) = valid_from (pred_numeral k) s"
  by (simp add: numeral_eq_Suc)

lemmas Builder_defs =
  Build_def Build_bind_def index_slice_def protocols_def addAMQPProtocol_def
  addMgmtProtocol_def dashboardURL_def uriForBinding_def urisForBinding_def
  httpapiuriForBinding_def httpapiurisForBinding_def uriForAMQP_def urisForAMQP_def
  uriForManagement_def urisForManagement_def itoa_def

lemmas json_defs =
  json_Marshal_def json_Unmarshal_def marshal_binding_def binding_members_def
  marshal_protocols_def marshal_protocol_def protocol_members_def omitempty_def
  marshal_string_def marshal_strings_def json_string_def first_def between_def
  float64_of_int_def

subsection \<open>The list builders and the reads of the first hostname\<close>

lemma range_append_map: "range_append f hs uris = uris @ map f hs"
  by (induction hs arbitrary: uris) simp_all

lemma urisForBinding_map: "urisForBinding b = map (uriForBinding b) (Builder.Hostnames b)"
  by (simp add: urisForBinding_def range_append_map)

lemma urisForAMQP_map:
  "urisForAMQP b port = map (\<lambda>h. uriForAMQP b h port) (Builder.Hostnames b)"
  by (simp add: urisForAMQP_def range_append_map)

lemma urisForManagement_map:
  "urisForManagement b port = map (\<lambda>h. uriForManagement b h port) (Builder.Hostnames b)"
  by (simp add: urisForManagement_def range_append_map)

lemma index_slice_Nil: "index_slice [] 0 = Panic (IndexOutOfRange 0 0)"
  by (simp add: index_slice_def)

lemma index_slice_Cons: "index_slice (x # xs) 0 = Done x"
  by (simp add: index_slice_def)

lemma Build_bind_Nil:
  "Builder.Hostnames b = [] \<Longrightarrow> Build_bind b = Panic (IndexOutOfRange 0 0)"
  by (simp add: Build_bind_def index_slice_Nil)

lemma addAMQPProtocol_Done:
  "Builder.Hostnames b \<noteq> [] \<Longrightarrow> \<exists>p. addAMQPProtocol b port tls = Done p"
  by (cases "Builder.Hostnames b") (simp_all add: addAMQPProtocol_def index_slice_Cons)

lemma addMgmtProtocol_Done:
  "Builder.Hostnames b \<noteq> [] \<Longrightarrow> \<exists>p. addMgmtProtocol b = Done p"
  by (cases "Builder.Hostnames b") (simp_all add: addMgmtProtocol_def index_slice_Cons)

subsection \<open>What the loop of \<^verbatim>\<open>protocols\<close> leaves in the map\<close>

lemma protocols_loop_Done:
  assumes "Builder.Hostnames b \<noteq> []"
  shows "\<exists>ps'. protocols_loop b kvs ps = Done ps'
           \<and> (\<forall>k. k \<noteq> ''amqp'' \<longrightarrow> ps' k = ps k)
           \<and> (''amqp'' \<notin> fst ` set kvs \<longrightarrow> ps' ''amqp'' = ps ''amqp'')
           \<and> (''amqp'' \<in> fst ` set kvs \<longrightarrow>
                (\<exists>port p. (''amqp'', port) \<in> set kvs \<and> addAMQPProtocol b port False = Done p
                    \<and> ps' ''amqp'' = Some p))"
proof (induction kvs arbitrary: ps)
  case Nil
  show ?case by simp
next
  case (Cons kv kvs)
  obtain k port where kv: "kv = (k, port)" by (cases kv)
  show ?case
  proof (cases "k = ''amqp''")
    case False
    with Cons [of ps] kv show ?thesis by auto
  next
    case True
    from assms obtain p where p: "addAMQPProtocol b port False = Done p"
      using addAMQPProtocol_Done by blast
    from Cons [of "ps(''amqp'' \<mapsto> p)"]
    obtain ps' where ps': "protocols_loop b kvs (ps(''amqp'' \<mapsto> p)) = Done ps'"
      and other: "\<forall>k. k \<noteq> ''amqp'' \<longrightarrow> ps' k = (ps(''amqp'' \<mapsto> p)) k"
      and absent: "''amqp'' \<notin> fst ` set kvs \<longrightarrow> ps' ''amqp'' = (ps(''amqp'' \<mapsto> p)) ''amqp''"
      and present: "''amqp'' \<in> fst ` set kvs \<longrightarrow>
                (\<exists>port p. (''amqp'', port) \<in> set kvs \<and> addAMQPProtocol b port False = Done p
                    \<and> ps' ''amqp'' = Some p)"
      by blast
    have run: "protocols_loop b (kv # kvs) ps = Done ps'"
      using kv True p ps' by simp
    have "\<exists>port p. (''amqp'', port) \<in> set (kv # kvs) \<and> addAMQPProtocol b port False = Done p
                    \<and> ps' ''amqp'' = Some p"
    proof (cases "''amqp'' \<in> fst ` set kvs")
      case True
      with present show ?thesis by auto
    next
      case False
      with absent have "ps' ''amqp'' = Some p" by simp
      with p kv True show ?thesis by auto
    qed
    moreover have "\<forall>k. k \<noteq> ''amqp'' \<longrightarrow> ps' k = ps k"
      using other by simp
    moreover have "''amqp'' \<in> fst ` set (kv # kvs)"
      using kv True by simp
    ultimately show ?thesis
      using run by blast
  qed
qed

lemma protocols_Done:
  assumes "Builder.Hostnames b \<noteq> []"
  shows "\<exists>ps m. protocols b = Done ps \<and> addMgmtProtocol b = Done m
           \<and> ps ''management'' = Some m
           \<and> dom ps \<subseteq> {''amqp'', ''management''}
           \<and> (''amqp'' \<notin> fst ` set (ProtocolPorts b) \<longrightarrow> ps ''amqp'' = None)
           \<and> (''amqp'' \<in> fst ` set (ProtocolPorts b) \<longrightarrow>
                (\<exists>port p. (''amqp'', port) \<in> set (ProtocolPorts b)
                    \<and> addAMQPProtocol b port False = Done p \<and> ps ''amqp'' = Some p))"
proof -
  from protocols_loop_Done [OF assms, of "ProtocolPorts b" Map.empty]
  obtain ps' where ps': "protocols_loop b (ProtocolPorts b) Map.empty = Done ps'"
      and other: "\<forall>k. k \<noteq> ''amqp'' \<longrightarrow> ps' k = None"
      and absent: "''amqp'' \<notin> fst ` set (ProtocolPorts b) \<longrightarrow> ps' ''amqp'' = None"
      and present: "''amqp'' \<in> fst ` set (ProtocolPorts b) \<longrightarrow>
                (\<exists>port p. (''amqp'', port) \<in> set (ProtocolPorts b)
                    \<and> addAMQPProtocol b port False = Done p \<and> ps' ''amqp'' = Some p)"
    by auto
  from assms obtain m where m: "addMgmtProtocol b = Done m"
    using addMgmtProtocol_Done by blast
  have run: "protocols b = Done (ps'(''management'' \<mapsto> m))"
    by (simp add: protocols_def ps' m)
  have "dom (ps'(''management'' \<mapsto> m)) \<subseteq> {''amqp'', ''management''}"
    using other by (auto simp: dom_def)
  with run m absent present show ?thesis by auto
qed

subsection \<open>\<^verbatim>\<open>Build\<close> with and without a hostname\<close>

lemma Build_Done:
  assumes "Builder.Hostnames b \<noteq> []"
  shows "\<exists>x. Build_bind b = Done x \<and> Build b = Done (decode (marshal_binding x), None)"
proof -
  from assms obtain h0 hs where hs: "Builder.Hostnames b = h0 # hs"
    by (cases "Builder.Hostnames b") auto
  from protocols_Done [OF assms] obtain ps where "protocols b = Done ps" by blast
  then show ?thesis
    by (simp add: Build_def Build_bind_def hs index_slice_Cons json_Marshal_def json_Unmarshal_def)
qed

subsection \<open>Reading a member of the decoded document\<close>

lemma member_binding:
  "member k (decode (marshal_binding x)) = map_option decode (map_of (binding_members x) k)"
  by (simp add: marshal_binding_def)

lemma member_protocol:
  "member k (decode (marshal_protocol p)) = map_option decode (map_of (protocol_members p) k)"
  by (simp add: marshal_protocol_def)

lemma member_protocols:
  "member k (decode (marshal_protocols ps)) = map_option (\<lambda>p. decode (marshal_protocol p)) (ps k)"
  by (simp add: marshal_protocols_def option.map_comp comp_def)

lemmas member_simps = member_binding member_protocol member_protocols

lemma keys_binding: "keys (decode (marshal_binding x)) = dom (map_of (binding_members x))"
  by (simp add: marshal_binding_def)

lemma keys_protocol: "keys (decode (marshal_protocol p)) = dom (map_of (protocol_members p))"
  by (simp add: marshal_protocol_def)

lemma keys_protocols: "keys (decode (marshal_protocols ps)) = dom ps"
  by (simp add: marshal_protocols_def)

lemmas keys_simps = keys_binding keys_protocol keys_protocols

lemma map_of_binding_members:
  "map_of (binding_members x) ''dashboard_url'' = Some (marshal_string (DashboardURL x))"
  "map_of (binding_members x) ''username'' = Some (marshal_string (binding.Username x))"
  "map_of (binding_members x) ''password'' = Some (marshal_string (binding.Password x))"
  "map_of (binding_members x) ''hostname'' = Some (marshal_string (binding.Hostname x))"
  "map_of (binding_members x) ''hostnames'' = Some (marshal_strings (binding.Hostnames x))"
  "map_of (binding_members x) ''http_api_uri'' = Some (marshal_string (HTTPAPIURI x))"
  "map_of (binding_members x) ''http_api_uris'' = Some (marshal_strings (HTTPAPIURIs x))"
  "map_of (binding_members x) ''uri'' = Some (marshal_string (binding.URI x))"
  "map_of (binding_members x) ''uris'' = Some (marshal_strings (binding.URIs x))"
  "map_of (binding_members x) ''vhost'' = Some (marshal_string (binding.VHost x))"
  "map_of (binding_members x) ''ssl'' = Some (JBool (binding.TLS x))"
  "map_of (binding_members x) ''protocols'' = Some (marshal_protocols (Protocols x))"
  by (simp_all add: binding_members_def)

lemma map_of_protocol_members:
  "map_of (protocol_members p) ''username'' = Some (marshal_string (protocol.Username p))"
  "map_of (protocol_members p) ''password'' = Some (marshal_string (protocol.Password p))"
  "map_of (protocol_members p) ''vhost'' =
     (if protocol.VHost p = [] then None else Some (marshal_string (protocol.VHost p)))"
  "map_of (protocol_members p) ''host'' = Some (marshal_string (protocol.Hostname p))"
  "map_of (protocol_members p) ''hosts'' = Some (marshal_strings (protocol.Hostnames p))"
  "map_of (protocol_members p) ''uri'' = Some (marshal_string (protocol.URI p))"
  "map_of (protocol_members p) ''uris'' = Some (marshal_strings (protocol.URIs p))"
  "map_of (protocol_members p) ''port'' = Some (JNumber (sint (protocol.Port p)))"
  "map_of (protocol_members p) ''ssl'' = Some (JBool (protocol.TLS p))"
  "map_of (protocol_members p) ''path'' =
     (if protocol.Path p = [] then None else Some (marshal_string (protocol.Path p)))"
  by (simp_all add: protocol_members_def omitempty_def)

lemma dom_binding_members:
  "dom (map_of (binding_members x)) =
     {''dashboard_url'', ''username'', ''password'', ''hostname'', ''hostnames'',
      ''http_api_uri'', ''http_api_uris'', ''uri'', ''uris'', ''vhost'', ''ssl'', ''protocols''}"
  by (simp add: binding_members_def dom_map_of_conv_image_fst)

lemma dom_protocol_members:
  "dom (map_of (protocol_members p)) =
     {''username'', ''password'', ''host'', ''hosts'', ''uri'', ''uris'', ''port'', ''ssl''}
       \<union> (if protocol.VHost p = [] then {} else {''vhost''})
       \<union> (if protocol.Path p = [] then {} else {''path''})"
  by (auto simp add: protocol_members_def omitempty_def dom_map_of_conv_image_fst)

lemma decode_marshal_string: "decode (marshal_string s) = GString (json_string s)"
  by (simp add: marshal_string_def)

lemma decode_marshal_strings:
  "decode (marshal_strings xs) = GSlice (map (\<lambda>s. decode (marshal_string s)) xs)"
  by (simp add: marshal_strings_def)

subsection \<open>The fields of the structs\<close>

lemma addAMQPProtocol_fields:
  assumes "addAMQPProtocol b port tls = Done p"
  shows "protocol.Username p = Builder.Username b"
    and "protocol.Password p = Builder.Password b"
    and "protocol.VHost p = Builder.VHost b"
    and "protocol.Hostname p = Builder.Hostnames b ! 0"
    and "protocol.Hostnames p = Builder.Hostnames b"
    and "protocol.URI p = uriForAMQP b (Builder.Hostnames b ! 0) port"
    and "protocol.URIs p = urisForAMQP b port"
    and "protocol.Port p = port"
    and "protocol.TLS p = tls"
    and "protocol.Path p = []"
  using assms
  by (auto simp: addAMQPProtocol_def index_slice_def split: if_splits)

lemma addMgmtProtocol_fields:
  assumes "addMgmtProtocol b = Done p"
  shows "protocol.Username p = Builder.Username b"
    and "protocol.Password p = Builder.Password b"
    and "protocol.VHost p = []"
    and "protocol.Hostname p = Builder.Hostnames b ! 0"
    and "protocol.Hostnames p = Builder.Hostnames b"
    and "protocol.URI p = uriForManagement b (Builder.Hostnames b ! 0) 15672"
    and "protocol.URIs p = urisForManagement b 15672"
    and "protocol.Port p = 15672"
    and "protocol.TLS p = False"
    and "protocol.Path p = ''/api/''"
  using assms
  by (auto simp: addMgmtProtocol_def index_slice_def split: if_splits)

lemma Build_bind_fields:
  assumes "Build_bind b = Done x"
  shows "DashboardURL x = dashboardURL b"
    and "binding.Username x = Builder.Username b"
    and "binding.Password x = Builder.Password b"
    and "binding.Hostname x = Builder.Hostnames b ! 0"
    and "binding.Hostnames x = Builder.Hostnames b"
    and "HTTPAPIURI x = httpapiuriForBinding b"
    and "HTTPAPIURIs x = httpapiurisForBinding b"
    and "binding.URI x = uriForBinding b (Builder.Hostnames b ! 0)"
    and "binding.URIs x = urisForBinding b"
    and "binding.VHost x = Builder.VHost b"
    and "binding.TLS x = Builder.TLS b"
    and "protocols b = Done (Protocols x)"
  using assms
  by (auto simp: Build_bind_def index_slice_def split: if_splits outcome.splits)

lemma Build_bind_Hostnames: "Build_bind b = Done x \<Longrightarrow> Builder.Hostnames b \<noteq> []"
  by (auto simp: Build_bind_def index_slice_def split: if_splits)

lemma Build_Done_iff:
  "Build b = Done (out, err) \<longleftrightarrow>
     err = None \<and> (\<exists>x. Build_bind b = Done x \<and> out = decode (marshal_binding x))"
  by (auto simp: Build_def json_Marshal_def json_Unmarshal_def split: outcome.splits)

lemma protocols_management:
  assumes "Builder.Hostnames b \<noteq> []" and "protocols b = Done ps"
  shows "\<exists>m. addMgmtProtocol b = Done m \<and> ps ''management'' = Some m"
  using protocols_Done [OF assms(1)] assms(2) by auto

lemma protocols_amqp:
  assumes "Builder.Hostnames b \<noteq> []" and "protocols b = Done ps"
    and "''amqp'' \<in> fst ` set (ProtocolPorts b)"
  shows "\<exists>port p. (''amqp'', port) \<in> set (ProtocolPorts b)
           \<and> addAMQPProtocol b port False = Done p \<and> ps ''amqp'' = Some p"
  using protocols_Done [OF assms(1)] assms(2,3) by auto

lemma protocols_no_amqp:
  assumes "Builder.Hostnames b \<noteq> []" and "protocols b = Done ps"
    and "''amqp'' \<notin> fst ` set (ProtocolPorts b)"
  shows "ps ''amqp'' = None"
  using protocols_Done [OF assms(1)] assms(2,3) by auto

lemma protocols_dom:
  assumes "Builder.Hostnames b \<noteq> []" and "protocols b = Done ps"
  shows "dom ps = insert ''management'' ({''amqp''} \<inter> fst ` set (ProtocolPorts b))"
proof -
  from protocols_Done [OF assms(1)] assms(2) obtain m where
    "ps ''management'' = Some m" "dom ps \<subseteq> {''amqp'', ''management''}"
    "''amqp'' \<notin> fst ` set (ProtocolPorts b) \<longrightarrow> ps ''amqp'' = None"
    "''amqp'' \<in> fst ` set (ProtocolPorts b) \<longrightarrow> (\<exists>p. ps ''amqp'' = Some p)"
    by auto
  then show ?thesis
    by (cases "''amqp'' \<in> fst ` set (ProtocolPorts b)") (auto simp: dom_def)
qed

lemma protocols_cases:
  assumes "Builder.Hostnames b \<noteq> []" and "protocols b = Done ps" and "ps name = Some p"
  shows "name = ''amqp'' \<and> (\<exists>port. (''amqp'', port) \<in> set (ProtocolPorts b)
                                  \<and> addAMQPProtocol b port False = Done p)
         \<or> name = ''management'' \<and> addMgmtProtocol b = Done p"
proof -
  from protocols_Done [OF assms(1)] assms(2) obtain m where
    m: "addMgmtProtocol b = Done m" "ps ''management'' = Some m"
    and d: "dom ps \<subseteq> {''amqp'', ''management''}"
    and absent: "''amqp'' \<notin> fst ` set (ProtocolPorts b) \<longrightarrow> ps ''amqp'' = None"
    and present: "''amqp'' \<in> fst ` set (ProtocolPorts b) \<longrightarrow>
       (\<exists>port p. (''amqp'', port) \<in> set (ProtocolPorts b)
          \<and> addAMQPProtocol b port False = Done p \<and> ps ''amqp'' = Some p)"
    by auto
  from d assms(3) have "name = ''amqp'' \<or> name = ''management''"
    by auto
  then show ?thesis
  proof
    assume n: "name = ''amqp''"
    with assms(3) absent have "''amqp'' \<in> fst ` set (ProtocolPorts b)"
      by auto
    with present n assms(3) show ?thesis
      by auto
  next
    assume "name = ''management''"
    with m assms(3) show ?thesis
      by auto
  qed
qed

lemma member_Some_protocols:
  assumes "member name (decode (marshal_protocols ps)) = Some d"
  obtains p where "ps name = Some p" and "d = decode (marshal_protocol p)"
  using assms by (auto simp: member_protocols)

lemma json_string_Nil_iff: "json_string s = [] \<longleftrightarrow> s = []"
  by (cases s) (simp_all add: json_string_def split: nat.split)

lemma float64_of_int_15672: "float64_of_int 15672 = 15672"
  by (simp add: float64_of_int_def excess_bits_numeral)

lemma json_string_api: "json_string ''/api/'' = ''/api/''"
  by (simp add: json_string_def first_def)

subsection \<open>Entries of \<^verbatim>\<open>ProtocolPorts\<close> that the loop passes over\<close>

lemma protocols_loop_filter:
  "protocols_loop b (filter (\<lambda>(name, port). name = ''amqp'') kvs) ps = protocols_loop b kvs ps"
  by (induction kvs arbitrary: ps) (auto split: outcome.splits)

lemma addAMQPProtocol_ports:
  "addAMQPProtocol (b\<lparr>ProtocolPorts := kvs\<rparr>) port tls = addAMQPProtocol b port tls"
  by (simp add: addAMQPProtocol_def uriForAMQP_def urisForAMQP_def cong: outcome.case_cong)

lemma addMgmtProtocol_ports:
  "addMgmtProtocol (b\<lparr>ProtocolPorts := kvs\<rparr>) = addMgmtProtocol b"
  by (simp add: addMgmtProtocol_def uriForManagement_def urisForManagement_def
      cong: outcome.case_cong)

lemma protocols_loop_ports:
  "protocols_loop (b\<lparr>ProtocolPorts := kvs'\<rparr>) kvs ps = protocols_loop b kvs ps"
  by (induction kvs arbitrary: ps) (auto simp: addAMQPProtocol_ports split: outcome.splits)

lemma protocols_filter:
  "protocols (b\<lparr>ProtocolPorts := filter (\<lambda>(name, port). name = ''amqp'') (ProtocolPorts b)\<rparr>)
     = protocols b"
  by (simp add: protocols_def protocols_loop_ports protocols_loop_filter addMgmtProtocol_ports
      cong: outcome.case_cong)

lemma uriForBinding_ports: "uriForBinding (b\<lparr>ProtocolPorts := kvs\<rparr>) = uriForBinding b"
  by (simp add: uriForBinding_def fun_eq_iff)

lemma methods_ports:
  "dashboardURL (b\<lparr>ProtocolPorts := kvs\<rparr>) = dashboardURL b"
  "httpapiuriForBinding (b\<lparr>ProtocolPorts := kvs\<rparr>) = httpapiuriForBinding b"
  "httpapiurisForBinding (b\<lparr>ProtocolPorts := kvs\<rparr>) = httpapiurisForBinding b"
  "urisForBinding (b\<lparr>ProtocolPorts := kvs\<rparr>) = urisForBinding b"
  by (simp_all add: dashboardURL_def httpapiuriForBinding_def httpapiurisForBinding_def
      uriForBinding_ports urisForBinding_def)

lemma Build_bind_filter:
  "Build_bind (b\<lparr>ProtocolPorts := filter (\<lambda>(name, port). name = ''amqp'') (ProtocolPorts b)\<rparr>)
     = Build_bind b"
  by (simp add: Build_bind_def protocols_filter methods_ports uriForBinding_ports
      cong: outcome.case_cong)

subsection \<open>Strings and numbers that the round trip leaves as they are\<close>

lemma first_Lead: "first x = Lead sz lo hi \<Longrightarrow> sz = 2 \<or> sz = 3 \<or> sz = 4"
  by (auto simp: first_def split: if_splits)

lemma rune_size_le: "rune_size s \<le> length s"
proof (cases s)
  case Nil
  then show ?thesis by simp
next
  case (Cons s0 t)
  show ?thesis
  proof (cases "first (of_char s0)")
    case (Lead sz lo hi)
    from first_Lead [OF this] show ?thesis
      by (auto simp: Cons Lead Suc_le_eq)
  qed (simp_all add: Cons)
qed

lemma rune_size_append:
  assumes "rune_size s = Suc k"
  shows "rune_size (s @ t) = Suc k"
proof (cases s)
  case Nil
  with assms show ?thesis by simp
next
  case (Cons s0 u)
  show ?thesis
  proof (cases "first (of_char s0)")
    case (Lead sz lo hi)
    from first_Lead [OF this] assms show ?thesis
      by (auto simp: Cons Lead nth_append split: if_splits)
  qed (use assms in \<open>simp_all add: Cons\<close>)
qed

lemma valid_from_append:
  "k \<le> length s \<Longrightarrow> valid_from k s \<Longrightarrow> valid_from 0 t \<Longrightarrow> valid_from k (s @ t)"
proof (induction s arbitrary: k)
  case Nil
  then show ?case by simp
next
  case (Cons c s)
  show ?case
  proof (cases k)
    case (Suc k')
    with Cons show ?thesis by simp
  next
    case 0
    with Cons.prems obtain m where m: "rune_size (c # s) = Suc m" and v: "valid_from m s"
      by (auto split: nat.splits simp del: rune_size.simps)
    from rune_size_le [of "c # s"] m have "m \<le> length s"
      by simp
    from Cons.IH [OF this v Cons.prems(3)] have "valid_from m (s @ t)" .
    moreover from rune_size_append [OF m, of t] have "rune_size (c # s @ t) = Suc m"
      by simp
    ultimately show ?thesis
      using 0 by (simp del: rune_size.simps)
  qed
qed

lemma ValidString_append: "ValidString s \<Longrightarrow> ValidString t \<Longrightarrow> ValidString (s @ t)"
  unfolding ValidString_def by (rule valid_from_append) simp_all

lemma ValidString_Cons_ascii:
  "of_char c < (0x80::nat) \<Longrightarrow> ValidString s \<Longrightarrow> ValidString (c # s)"
  by (simp add: ValidString_def first_def)

lemma ValidString_Nil: "ValidString []"
  by (simp add: ValidString_def)

lemma ValidString_ascii: "\<forall>c \<in> set s. of_char c < (0x80::nat) \<Longrightarrow> ValidString s"
  by (induction s) (simp_all add: ValidString_Nil ValidString_Cons_ascii)

lemma coerce_from_valid: "valid_from k s \<Longrightarrow> coerce_from k s = s"
  by (induction k s rule: coerce_from.induct)
    (auto split: nat.splits simp del: rune_size.simps)

lemma json_string_valid: "ValidString s \<Longrightarrow> json_string s = s"
  by (simp add: ValidString_def json_string_def coerce_from_valid)

lemma utoa_digits: "set (utoa n) \<subseteq> set ''0123456789''"
proof (induction n rule: utoa.induct)
  case (1 n)
  have d: "''0123456789'' ! k \<in> set ''0123456789''" if "k < 10" for k
    using that by (intro nth_mem) simp
  show ?case
  proof (cases "n < 10")
    case True
    with d [of n] show ?thesis
      by (subst utoa.simps) simp
  next
    case False
    have "n mod 10 < 10" by simp
    from d [OF this] 1 [OF False] False show ?thesis
      by (subst utoa.simps) simp
  qed
qed

lemma ValidString_utoa: "ValidString (utoa n)"
proof (rule ValidString_ascii, rule ballI)
  fix c assume "c \<in> set (utoa n)"
  with utoa_digits have "c \<in> set ''0123456789''" by blast
  then show "of_char c < (0x80::nat)" by auto
qed

lemma ValidString_itoa: "ValidString (itoa i)"
  by (simp add: itoa_def ValidString_utoa ValidString_Cons_ascii)

lemma excess_bits_small: "a < 2 ^ 53 \<Longrightarrow> excess_bits a = 0"
  by (subst excess_bits.simps) simp

lemma excess_bits_2_53: "excess_bits 9007199254740992 = Suc 0"
  by (simp add: excess_bits_numeral excess_bits_small)

lemma float64_of_int_exact:
  assumes "\<bar>n\<bar> \<le> 2 ^ 53"
  shows "float64_of_int n = n"
proof (cases "\<bar>n\<bar> < 2 ^ 53")
  case True
  then have "nat \<bar>n\<bar> < 2 ^ 53"
    by (simp add: nat_less_iff)
  then have "excess_bits (nat \<bar>n\<bar>) = 0"
    by (rule excess_bits_small)
  then show ?thesis
    by (simp add: float64_of_int_def Let_def mult_sgn_abs)
next
  case False
  with assms have "\<bar>n\<bar> = 9007199254740992" by simp
  then have a: "nat \<bar>n\<bar> = 9007199254740992" and s: "sgn n * 9007199254740992 = n"
    using mult_sgn_abs [of n] by simp_all
  show ?thesis
    by (simp add: float64_of_int_def Let_def a excess_bits_2_53 s)
qed

lemma decode_strings_valid:
  "\<forall>s \<in> set xs. ValidString s \<Longrightarrow> decode (marshal_strings xs) = GSlice (map GString xs)"
  by (simp add: marshal_strings_def marshal_string_def json_string_valid)

lemma decode_string_valid: "ValidString s \<Longrightarrow> decode (marshal_string s) = GString s"
  by (simp add: marshal_string_def json_string_valid)

lemma same_protocol_round_trip:
  assumes "ValidString (protocol.Username p)" and "ValidString (protocol.Password p)"
    and "ValidString (protocol.VHost p)" and "ValidString (protocol.Hostname p)"
    and "\<forall>s \<in> set (protocol.Hostnames p). ValidString s"
    and "ValidString (protocol.URI p)"
    and "\<forall>s \<in> set (protocol.URIs p). ValidString s"
    and "ValidString (protocol.Path p)"
    and "float64_of_int (sint (protocol.Port p)) = sint (protocol.Port p)"
  shows "same_protocol p (decode (marshal_protocol p))"
  unfolding same_protocol_def member_protocol map_of_protocol_members
  using assms by (simp add: decode_string_valid decode_strings_valid)

lemma same_binding_round_trip:
  assumes "ValidString (DashboardURL x)" and "ValidString (binding.Username x)"
    and "ValidString (binding.Password x)" and "ValidString (binding.Hostname x)"
    and "\<forall>s \<in> set (binding.Hostnames x). ValidString s"
    and "ValidString (HTTPAPIURI x)"
    and "\<forall>s \<in> set (HTTPAPIURIs x). ValidString s"
    and "ValidString (binding.URI x)"
    and "\<forall>s \<in> set (binding.URIs x). ValidString s"
    and "ValidString (binding.VHost x)"
    and "same_protocols (Protocols x) (decode (marshal_protocols (Protocols x)))"
  shows "same_binding x (decode (marshal_binding x))"
  unfolding same_binding_def member_binding map_of_binding_members
  using assms by (simp add: decode_string_valid decode_strings_valid)

lemma ValidString_literals:
  "ValidString ''http://''" "ValidString ''/#/login/''" "ValidString ''/''" "ValidString '':''"
  "ValidString ''@''" "ValidString ''/api/''" "ValidString ''amqp''" "ValidString ''://''"
  by (simp_all add: ValidString_def first_def)

lemma ValidString_methods:
  assumes "ValidString (MgmtDomain b)" and "ValidString (Builder.VHost b)"
    and "ValidString (Builder.Username b)" and "ValidString (Builder.Password b)"
  shows "ValidString (dashboardURL b)"
    and "ValidString (httpapiuriForBinding b)"
    and "ValidString h \<Longrightarrow> ValidString (uriForBinding b h)"
    and "ValidString h \<Longrightarrow> ValidString (uriForAMQP b h port)"
    and "ValidString h \<Longrightarrow> ValidString (uriForManagement b h port)"
  unfolding dashboardURL_def httpapiuriForBinding_def uriForBinding_def uriForAMQP_def
    uriForManagement_def
  by (intro ValidString_append ValidString_literals ValidString_itoa assms; assumption)+

subsection \<open>The claims\<close>

text \<open>
  C1. For the configuration of scenario A (one hostname 10.0.0.5, vhost \<^verbatim>\<open>%2f\<close>, user
  \<^verbatim>\<open>u\<close>, password \<^verbatim>\<open>p\<close>, management endpoint 10.0.0.5:15672, AMQP on port 5672), and
  for either value of the TLS flag, \<^verbatim>\<open>Build\<close> returns a record without an error, whose
  \<^verbatim>\<open>uri\<close> is \<^verbatim>\<open>amqp://u:p@10.0.0.5/%2f\<close>, whose AMQP descriptor has the \<^verbatim>\<open>uri\<close>
  \<^verbatim>\<open>amqp://u:p@10.0.0.5:5672/%2f\<close>, whose management descriptor has the \<^verbatim>\<open>uri\<close>
  \<^verbatim>\<open>http://u:p@10.0.0.5:15672/api/\<close>, and whose \<^verbatim>\<open>dashboard_url\<close> is
  \<^verbatim>\<open>http://10.0.0.5:15672/#/login/u/p\<close>.
\<close>

theorem Build_scenario_A:
  "\<exists>out. Build (scenario_A tls) = Done (out, None)
     \<and> at_path [''uri''] out = Some (GString ''amqp://u:p@10.0.0.5/%2f'')
     \<and> at_path [''protocols'', ''amqp'', ''uri''] out
         = Some (GString ''amqp://u:p@10.0.0.5:5672/%2f'')
     \<and> at_path [''protocols'', ''management'', ''uri''] out
         = Some (GString ''http://u:p@10.0.0.5:15672/api/'')
     \<and> at_path [''dashboard_url''] out = Some (GString ''http://10.0.0.5:15672/#/login/u/p'')"
  by (simp add: scenario_A_def Builder_defs json_defs utoa_eval)

text \<open>
  C2, as the code has it. With no hostname, \<^verbatim>\<open>Build\<close> stops at its first read of
  \<^verbatim>\<open>b.Hostnames[0]\<close> with the run-time panic \<^verbatim>\<open>index out of range [0] with length 0\<close>:
  it returns nothing to its caller, neither a record (whole or partial) nor an error
  value.
\<close>

theorem Build_no_hostnames_panics:
  "Builder.Hostnames b = [] \<Longrightarrow> Build b = Panic (IndexOutOfRange 0 0)"
  by (simp add: Build_def Build_bind_Nil)

theorem Build_no_hostnames_panics_witness:
  "Builder.Hostnames no_hostnames = [] \<and> Build no_hostnames = Panic (IndexOutOfRange 0 0)"
proof -
  have h: "Builder.Hostnames no_hostnames = []"
    by (simp add: no_hostnames_def)
  from Build_no_hostnames_panics [OF h] h show ?thesis by simp
qed

text \<open>
  C2, as the specification states it, fails: at a configuration with no hostname
  \<^verbatim>\<open>Build\<close> does not return an error of any kind; it panics.
\<close>

theorem Build_no_hostnames_returns_no_error:
  "Build no_hostnames = Panic (IndexOutOfRange 0 0) \<and> \<not> returns_error (Build no_hostnames)"
  by (simp add: no_hostnames_def Build_def Build_bind_def index_slice_def returns_error_def)

text \<open>
  C9. With at least one hostname, \<^verbatim>\<open>Build\<close> returns a record and the nil error: it
  does not panic, and neither \<^verbatim>\<open>json.Marshal\<close> nor \<^verbatim>\<open>json.Unmarshal\<close> fails on the
  struct it builds.
\<close>

theorem Build_succeeds:
  "Builder.Hostnames b \<noteq> [] \<Longrightarrow> \<exists>out. Build b = Done (out, None) \<and> \<not> returns_error (Build b)"
proof -
  assume "Builder.Hostnames b \<noteq> []"
  from Build_Done [OF this] obtain x where "Build b = Done (decode (marshal_binding x), None)"
    by blast
  then show ?thesis
    by (simp add: returns_error_def)
qed

theorem Build_succeeds_witness:
  "Builder.Hostnames bind_config \<noteq> []
     \<and> (\<exists>out. Build bind_config = Done (out, None) \<and> \<not> returns_error (Build bind_config))"
proof -
  have h: "Builder.Hostnames bind_config \<noteq> []"
    by (simp add: bind_config_def)
  from Build_succeeds [OF h] h show ?thesis by simp
qed

text \<open>
  C3. For a configuration with a hostname and an \<^verbatim>\<open>"amqp"\<close> entry in \<^verbatim>\<open>ProtocolPorts\<close>,
  the \<^verbatim>\<open>ssl\<close> field of the AMQP descriptor is false whatever the TLS flag of the
  configuration, and the top-level \<^verbatim>\<open>ssl\<close> field is that flag. (The hostnames of a
  configuration are non-empty by the specification's data model; with none \<^verbatim>\<open>Build\<close>
  has no output.)
\<close>

theorem amqp_descriptor_never_tls:
  assumes "Builder.Hostnames b \<noteq> []" and "''amqp'' \<in> fst ` set (ProtocolPorts b)"
  shows "\<exists>out. Build b = Done (out, None)
           \<and> at_path [''protocols'', ''amqp'', ''ssl''] out = Some (GBool False)
           \<and> at_path [''ssl''] out = Some (GBool (Builder.TLS b))"
proof -
  from Build_Done [OF assms(1)] obtain x where
    x: "Build_bind b = Done x" and out: "Build b = Done (decode (marshal_binding x), None)"
    by blast
  from protocols_amqp [OF assms(1) Build_bind_fields(12) [OF x] assms(2)] obtain port p where
    p: "addAMQPProtocol b port False = Done p" and ps: "Protocols x ''amqp'' = Some p"
    by blast
  show ?thesis
    by (simp add: out member_simps map_of_binding_members ps map_of_protocol_members
        addAMQPProtocol_fields(9) [OF p] Build_bind_fields(11) [OF x])
qed

theorem amqp_descriptor_never_tls_witness:
  "\<exists>out. Build (scenario_A True) = Done (out, None)
           \<and> at_path [''protocols'', ''amqp'', ''ssl''] out = Some (GBool False)
           \<and> at_path [''ssl''] out = Some (GBool True)"
proof -
  have h: "Builder.Hostnames (scenario_A True) \<noteq> []"
    by (simp add: scenario_A_def)
  have a: "''amqp'' \<in> fst ` set (ProtocolPorts (scenario_A True))"
    by (simp add: scenario_A_def)
  have t: "Builder.TLS (scenario_A True) = True"
    by (simp add: scenario_A_def)
  from amqp_descriptor_never_tls [OF h a] show ?thesis
    by (simp only: t)
qed

text \<open>
  C4. For a configuration with a hostname, the output's \<^verbatim>\<open>protocols\<close> has the key
  \<^verbatim>\<open>"management"\<close>, and that descriptor has \<^verbatim>\<open>ssl\<close> false, \<^verbatim>\<open>path\<close> \<^verbatim>\<open>/api/\<close> and
  \<^verbatim>\<open>port\<close> 15672, whatever the TLS flag and whatever \<^verbatim>\<open>ProtocolPorts\<close> holds.
\<close>

theorem management_descriptor_fixed:
  assumes "Builder.Hostnames b \<noteq> []"
  shows "\<exists>out ps. Build b = Done (out, None)
           \<and> at_path [''protocols''] out = Some ps \<and> ''management'' \<in> keys ps
           \<and> at_path [''protocols'', ''management'', ''ssl''] out = Some (GBool False)
           \<and> at_path [''protocols'', ''management'', ''path''] out = Some (GString ''/api/'')
           \<and> at_path [''protocols'', ''management'', ''port''] out = Some (GFloat64 15672)"
proof -
  from Build_Done [OF assms(1)] obtain x where
    x: "Build_bind b = Done x" and out: "Build b = Done (decode (marshal_binding x), None)"
    by blast
  from protocols_management [OF assms(1) Build_bind_fields(12) [OF x]] obtain m where
    m: "addMgmtProtocol b = Done m" and ps: "Protocols x ''management'' = Some m"
    by blast
  have "''management'' \<in> dom (Protocols x)"
    using ps by auto
  then show ?thesis
    by (simp add: out member_simps keys_simps map_of_binding_members ps map_of_protocol_members
        addMgmtProtocol_fields [OF m] decode_marshal_string json_string_api
        float64_of_int_15672)
qed

theorem management_descriptor_fixed_witness:
  "\<exists>out ps. Build bind_config = Done (out, None)
           \<and> at_path [''protocols''] out = Some ps \<and> ''management'' \<in> keys ps
           \<and> at_path [''protocols'', ''management'', ''ssl''] out = Some (GBool False)
           \<and> at_path [''protocols'', ''management'', ''path''] out = Some (GString ''/api/'')
           \<and> at_path [''protocols'', ''management'', ''port''] out = Some (GFloat64 15672)"
proof -
  have h: "Builder.Hostnames bind_config \<noteq> []"
    by (simp add: bind_config_def)
  from management_descriptor_fixed [OF h] show ?thesis .
qed

text \<open>
  C5. For a configuration with a hostname, the output's \<^verbatim>\<open>hostname\<close> is the first
  element of its \<^verbatim>\<open>hostnames\<close>, and \<^verbatim>\<open>hostnames\<close> and \<^verbatim>\<open>uris\<close> have the length of the
  configuration's hostnames; the element \<open>i\<close> of \<^verbatim>\<open>hostnames\<close> is the hostname \<open>i\<close> of
  the configuration and the element \<open>i\<close> of \<^verbatim>\<open>uris\<close> is the primary-protocol URI of
  that hostname, both as the JSON encoding writes a string. The same holds for
  \<^verbatim>\<open>host\<close>, \<^verbatim>\<open>hosts\<close>, \<^verbatim>\<open>uri\<close> and \<^verbatim>\<open>uris\<close> of every protocol descriptor, with the
  URI rule of that protocol.
\<close>

theorem hostnames_and_uris_correspond:
  assumes "Builder.Hostnames b \<noteq> []"
  shows "\<exists>out hs us. Build b = Done (out, None)
     \<and> at_path [''hostnames''] out = Some (GSlice hs)
     \<and> at_path [''hostname''] out = Some (hs ! 0)
     \<and> at_path [''uris''] out = Some (GSlice us)
     \<and> at_path [''uri''] out = Some (us ! 0)
     \<and> length hs = length (Builder.Hostnames b)
     \<and> length us = length (Builder.Hostnames b)
     \<and> (\<forall>i < length (Builder.Hostnames b).
           hs ! i = GString (json_string (Builder.Hostnames b ! i))
           \<and> us ! i = GString (json_string (uriForBinding b (Builder.Hostnames b ! i))))
     \<and> (\<forall>name d. at_path [''protocols'', name] out = Some d \<longrightarrow>
           (\<exists>f dus.
              (name = ''amqp''
                 \<and> (\<exists>port. (''amqp'', port) \<in> set (ProtocolPorts b)
                        \<and> f = (\<lambda>h. uriForAMQP b h port))
               \<or> name = ''management'' \<and> f = (\<lambda>h. uriForManagement b h 15672))
              \<and> at_path [''hosts''] d = Some (GSlice hs)
              \<and> at_path [''host''] d = Some (hs ! 0)
              \<and> at_path [''uris''] d = Some (GSlice dus)
              \<and> at_path [''uri''] d = Some (dus ! 0)
              \<and> length dus = length (Builder.Hostnames b)
              \<and> (\<forall>i < length (Builder.Hostnames b).
                    dus ! i = GString (json_string (f (Builder.Hostnames b ! i))))))"
proof -
  from Build_Done [OF assms(1)] obtain x where
    x: "Build_bind b = Done x" and out: "Build b = Done (decode (marshal_binding x), None)"
    by blast
  note ps = Build_bind_fields(12) [OF x]
  define hs where "hs = map (\<lambda>s. GString (json_string s)) (Builder.Hostnames b)"
  define us where "us = map (\<lambda>s. GString (json_string (uriForBinding b s))) (Builder.Hostnames b)"
  have pos: "0 < length (Builder.Hostnames b)"
    using assms by simp
  have hs0: "hs ! 0 = GString (json_string (Builder.Hostnames b ! 0))"
    using pos by (simp add: hs_def)
  have us0: "us ! 0 = GString (json_string (uriForBinding b (Builder.Hostnames b ! 0)))"
    using pos by (simp add: us_def)
  have 1: "at_path [''hostnames''] (decode (marshal_binding x)) = Some (GSlice hs)"
    by (simp add: member_simps map_of_binding_members decode_marshal_strings
        decode_marshal_string Build_bind_fields(5) [OF x] hs_def)
  have 2: "at_path [''hostname''] (decode (marshal_binding x)) = Some (hs ! 0)"
    by (simp add: member_simps map_of_binding_members decode_marshal_string
        Build_bind_fields(4) [OF x] hs0)
  have 3: "at_path [''uris''] (decode (marshal_binding x)) = Some (GSlice us)"
    by (simp add: member_simps map_of_binding_members decode_marshal_strings
        decode_marshal_string Build_bind_fields(9) [OF x] us_def urisForBinding_map comp_def)
  have 4: "at_path [''uri''] (decode (marshal_binding x)) = Some (us ! 0)"
    by (simp add: member_simps map_of_binding_members decode_marshal_string
        Build_bind_fields(8) [OF x] us0)
  have 5: "length hs = length (Builder.Hostnames b)"
    by (simp add: hs_def)
  have 6: "length us = length (Builder.Hostnames b)"
    by (simp add: us_def)
  have 7: "\<forall>i < length (Builder.Hostnames b).
           hs ! i = GString (json_string (Builder.Hostnames b ! i))
           \<and> us ! i = GString (json_string (uriForBinding b (Builder.Hostnames b ! i)))"
    by (simp add: hs_def us_def)
  have descr: "\<exists>f dus.
              (name = ''amqp''
                 \<and> (\<exists>port. (''amqp'', port) \<in> set (ProtocolPorts b)
                        \<and> f = (\<lambda>h. uriForAMQP b h port))
               \<or> name = ''management'' \<and> f = (\<lambda>h. uriForManagement b h 15672))
              \<and> at_path [''hosts''] d = Some (GSlice hs)
              \<and> at_path [''host''] d = Some (hs ! 0)
              \<and> at_path [''uris''] d = Some (GSlice dus)
              \<and> at_path [''uri''] d = Some (dus ! 0)
              \<and> length dus = length (Builder.Hostnames b)
              \<and> (\<forall>i < length (Builder.Hostnames b).
                    dus ! i = GString (json_string (f (Builder.Hostnames b ! i))))"
    if d: "at_path [''protocols'', name] (decode (marshal_binding x)) = Some d" for name d
  proof -
    from d have "member name (decode (marshal_protocols (Protocols x))) = Some d"
      by (simp add: member_binding map_of_binding_members split: option.splits)
    then obtain p where p: "Protocols x name = Some p" and dp: "d = decode (marshal_protocol p)"
      by (rule member_Some_protocols)
    have fields: "\<exists>dus. at_path [''hosts''] d = Some (GSlice hs)
              \<and> at_path [''host''] d = Some (hs ! 0)
              \<and> at_path [''uris''] d = Some (GSlice dus)
              \<and> at_path [''uri''] d = Some (dus ! 0)
              \<and> length dus = length (Builder.Hostnames b)
              \<and> (\<forall>i < length (Builder.Hostnames b).
                    dus ! i = GString (json_string (f (Builder.Hostnames b ! i))))"
      if "protocol.Hostname p = Builder.Hostnames b ! 0"
        and "protocol.Hostnames p = Builder.Hostnames b"
        and "protocol.URI p = f (Builder.Hostnames b ! 0)"
        and "protocol.URIs p = map f (Builder.Hostnames b)" for f
    proof (intro exI conjI)
      show "at_path [''hosts''] d = Some (GSlice hs)"
        by (simp add: dp member_simps map_of_protocol_members decode_marshal_strings
            decode_marshal_string that hs_def)
      show "at_path [''host''] d = Some (hs ! 0)"
        by (simp add: dp member_simps map_of_protocol_members decode_marshal_string that hs0)
      show "at_path [''uris''] d
              = Some (GSlice (map (\<lambda>s. GString (json_string (f s))) (Builder.Hostnames b)))"
        by (simp add: dp member_simps map_of_protocol_members decode_marshal_strings
            decode_marshal_string that comp_def)
      show "at_path [''uri''] d
              = Some (map (\<lambda>s. GString (json_string (f s))) (Builder.Hostnames b) ! 0)"
        using pos
        by (simp add: dp member_simps map_of_protocol_members decode_marshal_string that)
      show "length (map (\<lambda>s. GString (json_string (f s))) (Builder.Hostnames b))
              = length (Builder.Hostnames b)"
        by simp
      show "\<forall>i < length (Builder.Hostnames b).
              map (\<lambda>s. GString (json_string (f s))) (Builder.Hostnames b) ! i
                = GString (json_string (f (Builder.Hostnames b ! i)))"
        by simp
    qed
    from protocols_cases [OF assms ps p] show ?thesis
    proof (elim disjE conjE exE)
      fix port
      assume n: "name = ''amqp''" and inp: "(''amqp'', port) \<in> set (ProtocolPorts b)"
        and a: "addAMQPProtocol b port False = Done p"
      from fields [of "\<lambda>h. uriForAMQP b h port"] addAMQPProtocol_fields(4-7) [OF a]
      obtain dus where "at_path [''hosts''] d = Some (GSlice hs)
              \<and> at_path [''host''] d = Some (hs ! 0)
              \<and> at_path [''uris''] d = Some (GSlice dus)
              \<and> at_path [''uri''] d = Some (dus ! 0)
              \<and> length dus = length (Builder.Hostnames b)
              \<and> (\<forall>i < length (Builder.Hostnames b).
                    dus ! i = GString (json_string (uriForAMQP b (Builder.Hostnames b ! i) port)))"
        by (auto simp: urisForAMQP_map)
      with n inp show ?thesis
        by (intro exI [of _ "\<lambda>h. uriForAMQP b h port"] exI [of _ dus]) blast
    next
      assume n: "name = ''management''" and m: "addMgmtProtocol b = Done p"
      from fields [of "\<lambda>h. uriForManagement b h 15672"] addMgmtProtocol_fields(4-7) [OF m]
      obtain dus where "at_path [''hosts''] d = Some (GSlice hs)
              \<and> at_path [''host''] d = Some (hs ! 0)
              \<and> at_path [''uris''] d = Some (GSlice dus)
              \<and> at_path [''uri''] d = Some (dus ! 0)
              \<and> length dus = length (Builder.Hostnames b)
              \<and> (\<forall>i < length (Builder.Hostnames b).
                    dus ! i = GString (json_string (uriForManagement b (Builder.Hostnames b ! i) 15672)))"
        by (auto simp: urisForManagement_map)
      with n show ?thesis
        by (intro exI [of _ "\<lambda>h. uriForManagement b h 15672"] exI [of _ dus]) blast
    qed
  qed
  have 8: "\<forall>name d. at_path [''protocols'', name] (decode (marshal_binding x)) = Some d \<longrightarrow>
           (\<exists>f dus.
              (name = ''amqp''
                 \<and> (\<exists>port. (''amqp'', port) \<in> set (ProtocolPorts b)
                        \<and> f = (\<lambda>h. uriForAMQP b h port))
               \<or> name = ''management'' \<and> f = (\<lambda>h. uriForManagement b h 15672))
              \<and> at_path [''hosts''] d = Some (GSlice hs)
              \<and> at_path [''host''] d = Some (hs ! 0)
              \<and> at_path [''uris''] d = Some (GSlice dus)
              \<and> at_path [''uri''] d = Some (dus ! 0)
              \<and> length dus = length (Builder.Hostnames b)
              \<and> (\<forall>i < length (Builder.Hostnames b).
                    dus ! i = GString (json_string (f (Builder.Hostnames b ! i)))))"
    by (intro allI impI) (rule descr)
  show ?thesis
    by (intro exI conjI) (rule out, rule 1, rule 2, rule 3, rule 4, rule 5, rule 6, rule 7, rule 8)
qed

theorem hostnames_and_uris_correspond_witness:
  "Builder.Hostnames scenario_B \<noteq> []
   \<and> (\<exists>out us d dus. Build scenario_B = Done (out, None)
         \<and> at_path [''uris''] out = Some (GSlice us)
         \<and> length us = 2
         \<and> us ! 0 = GString ''amqp://u:p@h1/%2f''
         \<and> us ! 1 = GString ''amqp://u:p@h2/%2f''
         \<and> at_path [''protocols'', ''management''] out = Some d
         \<and> at_path [''uris''] d = Some (GSlice dus)
         \<and> length dus = 2
         \<and> dus ! 0 = GString ''http://u:p@h1:15672/api/''
         \<and> dus ! 1 = GString ''http://u:p@h2:15672/api/'')"
proof -
  have h: "Builder.Hostnames scenario_B \<noteq> []"
    by (simp add: scenario_B_def)
  from hostnames_and_uris_correspond [OF h] obtain out hs us where
    out: "Build scenario_B = Done (out, None)"
    and us: "at_path [''uris''] out = Some (GSlice us)"
    and len: "length us = length (Builder.Hostnames scenario_B)"
    and nth: "\<forall>i < length (Builder.Hostnames scenario_B).
           hs ! i = GString (json_string (Builder.Hostnames scenario_B ! i))
           \<and> us ! i = GString (json_string (uriForBinding scenario_B (Builder.Hostnames scenario_B ! i)))"
    and descr: "\<forall>name d. at_path [''protocols'', name] out = Some d \<longrightarrow>
           (\<exists>f dus.
              (name = ''amqp''
                 \<and> (\<exists>port. (''amqp'', port) \<in> set (ProtocolPorts scenario_B)
                        \<and> f = (\<lambda>h. uriForAMQP scenario_B h port))
               \<or> name = ''management'' \<and> f = (\<lambda>h. uriForManagement scenario_B h 15672))
              \<and> at_path [''hosts''] d = Some (GSlice hs)
              \<and> at_path [''host''] d = Some (hs ! 0)
              \<and> at_path [''uris''] d = Some (GSlice dus)
              \<and> at_path [''uri''] d = Some (dus ! 0)
              \<and> length dus = length (Builder.Hostnames scenario_B)
              \<and> (\<forall>i < length (Builder.Hostnames scenario_B).
                    dus ! i = GString (json_string (f (Builder.Hostnames scenario_B ! i)))))"
    by blast
  have l2: "length (Builder.Hostnames scenario_B) = 2"
    by (simp add: scenario_B_def)
  from nth [rule_format, of 0] have u0: "us ! 0 = GString ''amqp://u:p@h1/%2f''"
    by (simp add: scenario_B_def uriForBinding_def json_string_def first_def)
  from nth [rule_format, of 1] have u1: "us ! 1 = GString ''amqp://u:p@h2/%2f''"
    by (simp add: scenario_B_def uriForBinding_def json_string_def first_def)
  from len l2 have lus: "length us = 2"
    by simp
  have "\<exists>out' d. Build scenario_B = Done (out', None)
          \<and> at_path [''protocols'', ''management''] out' = Some d"
    by (simp add: scenario_B_def Builder_defs json_defs)
  with out obtain d where d: "at_path [''protocols'', ''management''] out = Some d"
    by auto
  from descr [rule_format, OF d] obtain dus where
    dus: "at_path [''uris''] d = Some (GSlice dus)"
    and dlen: "length dus = length (Builder.Hostnames scenario_B)"
    and dnth: "\<forall>i < length (Builder.Hostnames scenario_B).
                 dus ! i = GString (json_string (uriForManagement scenario_B
                                                   (Builder.Hostnames scenario_B ! i) 15672))"
    by auto
  from dnth [rule_format, of 0] have d0: "dus ! 0 = GString ''http://u:p@h1:15672/api/''"
    by (simp add: scenario_B_def uriForManagement_def json_string_def first_def itoa_def utoa_eval)
  from dnth [rule_format, of 1] have d1: "dus ! 1 = GString ''http://u:p@h2:15672/api/''"
    by (simp add: scenario_B_def uriForManagement_def json_string_def first_def itoa_def utoa_eval)
  from dlen l2 have ldus: "length dus = 2"
    by simp
  from h out us lus u0 u1 d dus ldus d0 d1 show ?thesis
    by blast
qed

text \<open>
  C6. An entry of \<^verbatim>\<open>ProtocolPorts\<close> whose name is not \<^verbatim>\<open>"amqp"\<close> has no effect at all:
  \<^verbatim>\<open>Build\<close> behaves the same with every such entry removed. Whenever \<^verbatim>\<open>Build\<close>
  returns, it returns no error, and the keys of the output's \<^verbatim>\<open>protocols\<close> are
  \<^verbatim>\<open>"management"\<close>, and \<^verbatim>\<open>"amqp"\<close> when \<^verbatim>\<open>ProtocolPorts\<close> has it: a subset of
  \<open>{amqp, management}\<close>.
\<close>

theorem unrecognised_protocols_dropped:
  "Build (b\<lparr>ProtocolPorts := filter (\<lambda>(name, port). name = ''amqp'') (ProtocolPorts b)\<rparr>) = Build b
   \<and> (\<forall>out err. Build b = Done (out, err) \<longrightarrow>
          err = None
          \<and> (\<exists>ps. at_path [''protocols''] out = Some ps
                \<and> keys ps = insert ''management'' ({''amqp''} \<inter> fst ` set (ProtocolPorts b))
                \<and> keys ps \<subseteq> {''amqp'', ''management''}))"
proof (intro conjI allI impI)
  show "Build (b\<lparr>ProtocolPorts := filter (\<lambda>(name, port). name = ''amqp'') (ProtocolPorts b)\<rparr>)
          = Build b"
    by (simp add: Build_def Build_bind_filter)
next
  fix out err
  assume "Build b = Done (out, err)"
  then show "err = None"
    by (simp add: Build_Done_iff)
next
  fix out err
  assume "Build b = Done (out, err)"
  then obtain x where x: "Build_bind b = Done x" and out: "out = decode (marshal_binding x)"
    by (auto simp: Build_Done_iff)
  have "dom (Protocols x) = insert ''management'' ({''amqp''} \<inter> fst ` set (ProtocolPorts b))"
    by (rule protocols_dom [OF Build_bind_Hostnames [OF x] Build_bind_fields(12) [OF x]])
  then show "\<exists>ps. at_path [''protocols''] out = Some ps
                \<and> keys ps = insert ''management'' ({''amqp''} \<inter> fst ` set (ProtocolPorts b))
                \<and> keys ps \<subseteq> {''amqp'', ''management''}"
    by (auto simp: out member_simps keys_simps map_of_binding_members)
qed

theorem unrecognised_protocols_dropped_witness:
  "Build (bind_config\<lparr>ProtocolPorts := [(''amqp'', 5672)]\<rparr>) = Build bind_config
   \<and> (\<exists>out ps. Build bind_config = Done (out, None)
         \<and> at_path [''protocols''] out = Some ps
         \<and> keys ps = {''amqp'', ''management''}
         \<and> ''clustering'' \<notin> keys ps \<and> ''http'' \<notin> keys ps)"
proof -
  have f: "filter (\<lambda>(name, port). name = ''amqp'') (ProtocolPorts bind_config) = [(''amqp'', 5672)]"
    by (simp add: bind_config_def)
  have n: "insert ''management'' ({''amqp''} \<inter> fst ` set (ProtocolPorts bind_config))
             = {''amqp'', ''management''}"
    by (auto simp: bind_config_def)
  have h: "Builder.Hostnames bind_config \<noteq> []"
    by (simp add: bind_config_def)
  from Build_Done [OF h] obtain out where out: "Build bind_config = Done (out, None)"
    by blast
  note dropped = unrecognised_protocols_dropped [of bind_config]
  have same: "Build (bind_config\<lparr>ProtocolPorts := [(''amqp'', 5672)]\<rparr>) = Build bind_config"
    using dropped [THEN conjunct1] by (simp only: f)
  from dropped [THEN conjunct2, rule_format, OF out, THEN conjunct2]
  obtain ps where ps: "at_path [''protocols''] out = Some ps"
    and ks: "keys ps = {''amqp'', ''management''}"
    unfolding n by blast
  have "''clustering'' \<notin> keys ps" and "''http'' \<notin> keys ps"
    by (simp_all add: ks)
  with same out ps ks show ?thesis
    by blast
qed

text \<open>
  C8. For a configuration with a hostname, the output record has exactly the twelve
  keys \<^verbatim>\<open>dashboard_url\<close>, \<^verbatim>\<open>username\<close>, \<^verbatim>\<open>password\<close>, \<^verbatim>\<open>hostname\<close>, \<^verbatim>\<open>hostnames\<close>,
  \<^verbatim>\<open>http_api_uri\<close>, \<^verbatim>\<open>http_api_uris\<close>, \<^verbatim>\<open>uri\<close>, \<^verbatim>\<open>uris\<close>, \<^verbatim>\<open>vhost\<close>, \<^verbatim>\<open>ssl\<close> and
  \<^verbatim>\<open>protocols\<close>. Every protocol descriptor has the keys \<^verbatim>\<open>username\<close>, \<^verbatim>\<open>password\<close>,
  \<^verbatim>\<open>host\<close>, \<^verbatim>\<open>hosts\<close>, \<^verbatim>\<open>uri\<close>, \<^verbatim>\<open>uris\<close>, \<^verbatim>\<open>port\<close> and \<^verbatim>\<open>ssl\<close>, and no key besides
  these but \<^verbatim>\<open>vhost\<close> and \<^verbatim>\<open>path\<close>. \<^verbatim>\<open>vhost\<close> is present exactly in the AMQP descriptor
  of a configuration with a non-empty vhost and \<^verbatim>\<open>path\<close> exactly in the management
  descriptor; where one of the two is present it is a non-empty string, never null.
\<close>

theorem output_field_names:
  assumes "Builder.Hostnames b \<noteq> []"
  shows "\<exists>out ps. Build b = Done (out, None)
     \<and> keys out =
         {''dashboard_url'', ''username'', ''password'', ''hostname'', ''hostnames'',
          ''http_api_uri'', ''http_api_uris'', ''uri'', ''uris'', ''vhost'', ''ssl'', ''protocols''}
     \<and> at_path [''protocols''] out = Some ps
     \<and> (\<forall>name d. at_path [name] ps = Some d \<longrightarrow>
           {''username'', ''password'', ''host'', ''hosts'', ''uri'', ''uris'', ''port'', ''ssl''}
              \<subseteq> keys d
           \<and> keys d \<subseteq> {''username'', ''password'', ''vhost'', ''host'', ''hosts'', ''uri'',
                         ''uris'', ''port'', ''ssl'', ''path''}
           \<and> (''vhost'' \<in> keys d \<longleftrightarrow> name = ''amqp'' \<and> Builder.VHost b \<noteq> [])
           \<and> (''path'' \<in> keys d \<longleftrightarrow> name = ''management'')
           \<and> (\<forall>v. at_path [''vhost''] d = Some v \<longrightarrow> (\<exists>s. v = GString s \<and> s \<noteq> []))
           \<and> (\<forall>v. at_path [''path''] d = Some v \<longrightarrow> (\<exists>s. v = GString s \<and> s \<noteq> [])))"
proof -
  from Build_Done [OF assms(1)] obtain x where
    x: "Build_bind b = Done x" and out: "Build b = Done (decode (marshal_binding x), None)"
    by blast
  note ps = Build_bind_fields(12) [OF x]
  have descr: "{''username'', ''password'', ''host'', ''hosts'', ''uri'', ''uris'', ''port'', ''ssl''}
              \<subseteq> keys d
           \<and> keys d \<subseteq> {''username'', ''password'', ''vhost'', ''host'', ''hosts'', ''uri'',
                         ''uris'', ''port'', ''ssl'', ''path''}
           \<and> (''vhost'' \<in> keys d \<longleftrightarrow> name = ''amqp'' \<and> Builder.VHost b \<noteq> [])
           \<and> (''path'' \<in> keys d \<longleftrightarrow> name = ''management'')
           \<and> (\<forall>v. at_path [''vhost''] d = Some v \<longrightarrow> (\<exists>s. v = GString s \<and> s \<noteq> []))
           \<and> (\<forall>v. at_path [''path''] d = Some v \<longrightarrow> (\<exists>s. v = GString s \<and> s \<noteq> []))"
    if d: "at_path [name] (decode (marshal_protocols (Protocols x))) = Some d" for name d
  proof -
    from d have "member name (decode (marshal_protocols (Protocols x))) = Some d"
      by (simp split: option.splits)
    then obtain p where p: "Protocols x name = Some p" and dp: "d = decode (marshal_protocol p)"
      by (rule member_Some_protocols)
    from protocols_cases [OF assms ps p] show ?thesis
    proof (elim disjE conjE exE)
      fix port
      assume n: "name = ''amqp''" and a: "addAMQPProtocol b port False = Done p"
      show ?thesis
        by (simp add: dp n keys_simps member_simps dom_protocol_members map_of_protocol_members
            addAMQPProtocol_fields(3,10) [OF a] decode_marshal_string json_string_Nil_iff)
    next
      assume n: "name = ''management''" and m: "addMgmtProtocol b = Done p"
      show ?thesis
        by (simp add: dp n keys_simps member_simps dom_protocol_members map_of_protocol_members
            addMgmtProtocol_fields(3,10) [OF m] decode_marshal_string json_string_Nil_iff)
    qed
  qed
  have all: "\<forall>name d. at_path [name] (decode (marshal_protocols (Protocols x))) = Some d \<longrightarrow>
           {''username'', ''password'', ''host'', ''hosts'', ''uri'', ''uris'', ''port'', ''ssl''}
              \<subseteq> keys d
           \<and> keys d \<subseteq> {''username'', ''password'', ''vhost'', ''host'', ''hosts'', ''uri'',
                         ''uris'', ''port'', ''ssl'', ''path''}
           \<and> (''vhost'' \<in> keys d \<longleftrightarrow> name = ''amqp'' \<and> Builder.VHost b \<noteq> [])
           \<and> (''path'' \<in> keys d \<longleftrightarrow> name = ''management'')
           \<and> (\<forall>v. at_path [''vhost''] d = Some v \<longrightarrow> (\<exists>s. v = GString s \<and> s \<noteq> []))
           \<and> (\<forall>v. at_path [''path''] d = Some v \<longrightarrow> (\<exists>s. v = GString s \<and> s \<noteq> []))"
    by (intro allI impI) (rule descr)
  have top: "keys (decode (marshal_binding x)) =
         {''dashboard_url'', ''username'', ''password'', ''hostname'', ''hostnames'',
          ''http_api_uri'', ''http_api_uris'', ''uri'', ''uris'', ''vhost'', ''ssl'', ''protocols''}"
    by (simp only: keys_binding dom_binding_members)
  have sub: "at_path [''protocols''] (decode (marshal_binding x))
               = Some (decode (marshal_protocols (Protocols x)))"
    by (simp add: member_simps map_of_binding_members)
  show ?thesis
    by (intro exI conjI) (rule out, rule top, rule sub, rule all)
qed

theorem output_field_names_witness:
  "Builder.Hostnames bind_config \<noteq> []
   \<and> (\<exists>out ps. Build bind_config = Done (out, None)
     \<and> keys out =
         {''dashboard_url'', ''username'', ''password'', ''hostname'', ''hostnames'',
          ''http_api_uri'', ''http_api_uris'', ''uri'', ''uris'', ''vhost'', ''ssl'', ''protocols''}
     \<and> at_path [''protocols''] out = Some ps
     \<and> (\<forall>name d. at_path [name] ps = Some d \<longrightarrow>
           {''username'', ''password'', ''host'', ''hosts'', ''uri'', ''uris'', ''port'', ''ssl''}
              \<subseteq> keys d
           \<and> keys d \<subseteq> {''username'', ''password'', ''vhost'', ''host'', ''hosts'', ''uri'',
                         ''uris'', ''port'', ''ssl'', ''path''}
           \<and> (''vhost'' \<in> keys d \<longleftrightarrow> name = ''amqp'' \<and> Builder.VHost bind_config \<noteq> [])
           \<and> (''path'' \<in> keys d \<longleftrightarrow> name = ''management'')
           \<and> (\<forall>v. at_path [''vhost''] d = Some v \<longrightarrow> (\<exists>s. v = GString s \<and> s \<noteq> []))
           \<and> (\<forall>v. at_path [''path''] d = Some v \<longrightarrow> (\<exists>s. v = GString s \<and> s \<noteq> []))))"
proof -
  have h: "Builder.Hostnames bind_config \<noteq> []"
    by (simp add: bind_config_def)
  show ?thesis
    by (rule conjI [OF h output_field_names [OF h]])
qed

text \<open>
  C10. When the vhost of the configuration is the empty string (with a hostname and an
  \<^verbatim>\<open>"amqp"\<close> entry in \<^verbatim>\<open>ProtocolPorts\<close>), the AMQP descriptor of the output has no
  \<^verbatim>\<open>vhost\<close> key, while the top level of the output has the key \<^verbatim>\<open>vhost\<close> with the empty
  string.
\<close>

theorem empty_vhost_omitted_in_descriptor:
  assumes "Builder.Hostnames b \<noteq> []" and "Builder.VHost b = []"
    and "''amqp'' \<in> fst ` set (ProtocolPorts b)"
  shows "\<exists>out d. Build b = Done (out, None)
           \<and> at_path [''protocols'', ''amqp''] out = Some d
           \<and> ''vhost'' \<notin> keys d
           \<and> at_path [''vhost''] d = None
           \<and> ''vhost'' \<in> keys out
           \<and> at_path [''vhost''] out = Some (GString [])"
proof -
  from Build_Done [OF assms(1)] obtain x where
    x: "Build_bind b = Done x" and out: "Build b = Done (decode (marshal_binding x), None)"
    by blast
  from protocols_amqp [OF assms(1) Build_bind_fields(12) [OF x] assms(3)] obtain port p where
    p: "addAMQPProtocol b port False = Done p" and ps: "Protocols x ''amqp'' = Some p"
    by blast
  have v: "protocol.VHost p = []"
    using addAMQPProtocol_fields(3) [OF p] assms(2) by simp
  have "json_string [] = []"
    by (simp add: json_string_def)
  then show ?thesis
    by (simp add: out member_simps keys_simps map_of_binding_members ps map_of_protocol_members
        dom_binding_members dom_protocol_members v addAMQPProtocol_fields(10) [OF p]
        Build_bind_fields(10) [OF x] assms(2) decode_marshal_string)
qed

theorem empty_vhost_omitted_in_descriptor_witness:
  "\<exists>out d. Build empty_vhost = Done (out, None)
           \<and> at_path [''protocols'', ''amqp''] out = Some d
           \<and> ''vhost'' \<notin> keys d
           \<and> at_path [''vhost''] d = None
           \<and> ''vhost'' \<in> keys out
           \<and> at_path [''vhost''] out = Some (GString [])"
proof -
  have h: "Builder.Hostnames empty_vhost \<noteq> []"
    by (simp add: empty_vhost_def)
  have v: "Builder.VHost empty_vhost = []"
    by (simp add: empty_vhost_def)
  have a: "''amqp'' \<in> fst ` set (ProtocolPorts empty_vhost)"
    by (simp add: empty_vhost_def)
  from empty_vhost_omitted_in_descriptor [OF h v a] show ?thesis .
qed

text \<open>
  C7, as the code has it. For a configuration with a hostname, whose management
  endpoint, hostnames, vhost, user name and password are valid UTF-8 and whose AMQP
  ports are float64 values (every integer of magnitude up to \<open>2 ^ 53\<close> is one, by
  \<open>float64_of_int_exact\<close>), the record \<^verbatim>\<open>Build\<close> returns equals the struct it built in
  every field, the optional \<^verbatim>\<open>vhost\<close> and \<^verbatim>\<open>path\<close> of a descriptor being absent
  exactly when empty.
\<close>

theorem round_trip_of_valid_config:
  assumes hosts: "Builder.Hostnames b \<noteq> []"
    and md: "ValidString (MgmtDomain b)"
    and hs: "\<forall>h \<in> set (Builder.Hostnames b). ValidString h"
    and vh: "ValidString (Builder.VHost b)"
    and us: "ValidString (Builder.Username b)"
    and pw: "ValidString (Builder.Password b)"
    and ports: "\<forall>(name, port) \<in> set (ProtocolPorts b).
                  name = ''amqp'' \<longrightarrow> float64_of_int (sint port) = sint port"
  shows "round_trip_faithful b"
proof -
  from Build_Done [OF hosts] obtain x where
    x: "Build_bind b = Done x" and out: "Build b = Done (decode (marshal_binding x), None)"
    by blast
  note f = Build_bind_fields [OF x]
  note vm = ValidString_methods [OF md vh us pw]
  have h0: "ValidString (Builder.Hostnames b ! 0)"
    using hosts hs by simp
  have descr: "same_protocols (Protocols x) (decode (marshal_protocols (Protocols x)))"
    unfolding same_protocols_def
  proof (rule allI)
    fix name
    show "case Protocols x name of
            None \<Rightarrow> member name (decode (marshal_protocols (Protocols x))) = None
          | Some p \<Rightarrow>
              (case member name (decode (marshal_protocols (Protocols x))) of
                 None \<Rightarrow> False
               | Some d \<Rightarrow> same_protocol p d)"
    proof (cases "Protocols x name")
      case None
      then show ?thesis
        by (simp add: member_protocols)
    next
      case (Some p)
      have "same_protocol p (decode (marshal_protocol p))"
        using protocols_cases [OF hosts f(12) Some]
      proof (elim disjE conjE exE)
        fix port
        assume inp: "(''amqp'', port) \<in> set (ProtocolPorts b)"
          and a: "addAMQPProtocol b port False = Done p"
        from ports inp have exact: "float64_of_int (sint port) = sint port"
          by auto
        note af = addAMQPProtocol_fields [OF a]
        show ?thesis
          by (rule same_protocol_round_trip)
            (simp_all add: af us pw vh h0 hs vm urisForAMQP_map exact ValidString_Nil)
      next
        assume m: "addMgmtProtocol b = Done p"
        note mf = addMgmtProtocol_fields [OF m]
        show ?thesis
          by (rule same_protocol_round_trip)
            (simp_all add: mf us pw h0 hs vm urisForManagement_map float64_of_int_15672
              ValidString_Nil ValidString_literals)
      qed
      with Some show ?thesis
        by (simp add: member_protocols)
    qed
  qed
  have "same_binding x (decode (marshal_binding x))"
    by (rule same_binding_round_trip)
      (simp_all add: f us pw vh h0 hs vm urisForBinding_map httpapiurisForBinding_def descr)
  then show ?thesis
    by (simp add: round_trip_faithful_def x out)
qed

theorem round_trip_of_valid_config_witness:
  "round_trip_faithful bind_config"
proof (rule round_trip_of_valid_config)
  show "Builder.Hostnames bind_config \<noteq> []"
    by (simp add: bind_config_def)
  show "ValidString (MgmtDomain bind_config)"
    by (simp add: bind_config_def ValidString_def first_def)
  show "\<forall>h \<in> set (Builder.Hostnames bind_config). ValidString h"
    by (simp add: bind_config_def ValidString_def first_def)
  show "ValidString (Builder.VHost bind_config)"
    by (simp add: bind_config_def ValidString_def first_def)
  show "ValidString (Builder.Username bind_config)"
    by (simp add: bind_config_def ValidString_def first_def)
  show "ValidString (Builder.Password bind_config)"
    by (simp add: bind_config_def ValidString_def first_def)
  show "\<forall>(name, port) \<in> set (ProtocolPorts bind_config).
          name = ''amqp'' \<longrightarrow> float64_of_int (sint port) = sint port"
    by (simp add: bind_config_def float64_of_int_def excess_bits_numeral)
qed

text \<open>
  The outputs at the two configurations above: the byte \<^verbatim>\<open>0xFF\<close> comes back as the
  three bytes of U+FFFD, and the port \<open>2 ^ 53 + 1\<close> as \<open>2 ^ 53\<close>.
\<close>

lemma invalid_utf8_user_output:
  "\<exists>out. Build invalid_utf8_user = Done (out, None)
     \<and> at_path [''username''] out = Some (GString [CHR 0xEF, CHR 0xBF, CHR 0xBD])"
  by (simp add: invalid_utf8_user_def Builder_defs json_defs utoa_eval)

lemma huge_port_output:
  "\<exists>out. Build huge_port = Done (out, None)
     \<and> at_path [''protocols'', ''amqp'', ''port''] out = Some (GFloat64 9007199254740992)"
  by (simp add: huge_port_def Builder_defs json_defs utoa_eval excess_bits_numeral)

text \<open>
  C7, as the specification states it, fails: the round trip does not keep a string
  that is not valid UTF-8, nor an integer that is no float64.
\<close>

theorem round_trip_loses_bytes_and_digits:
  "\<not> round_trip_faithful invalid_utf8_user \<and> \<not> round_trip_faithful huge_port"
proof
  have x: "\<exists>x. Build_bind invalid_utf8_user = Done x
             \<and> Build invalid_utf8_user = Done (decode (marshal_binding x), None)
             \<and> binding.Username x = [CHR 0xFF]"
    by (simp add: invalid_utf8_user_def Build_def Build_bind_def index_slice_def protocols_def
        addAMQPProtocol_def addMgmtProtocol_def json_Marshal_def json_Unmarshal_def)
  then obtain x where "Build_bind invalid_utf8_user = Done x"
    and "Build invalid_utf8_user = Done (decode (marshal_binding x), None)"
    and "binding.Username x = [CHR 0xFF]"
    by blast
  then show "\<not> round_trip_faithful invalid_utf8_user"
    by (simp add: round_trip_faithful_def same_binding_def member_binding
        map_of_binding_members marshal_string_def json_string_def first_def)
next
  have "\<exists>x p. Build_bind huge_port = Done x
             \<and> Build huge_port = Done (decode (marshal_binding x), None)
             \<and> Protocols x ''amqp'' = Some p \<and> protocol.Port p = 9007199254740993"
    by (simp add: huge_port_def Build_def Build_bind_def index_slice_def protocols_def
        addAMQPProtocol_def addMgmtProtocol_def json_Marshal_def json_Unmarshal_def)
  then obtain x p where x: "Build_bind huge_port = Done x"
    and out: "Build huge_port = Done (decode (marshal_binding x), None)"
    and p: "Protocols x ''amqp'' = Some p" and port: "protocol.Port p = 9007199254740993"
    by blast
  have "float64_of_int 9007199254740993 = 9007199254740992"
    by (simp add: float64_of_int_def excess_bits_numeral)
  then have "\<not> same_protocol p (decode (marshal_protocol p))"
    by (simp add: same_protocol_def member_protocol map_of_protocol_members port)
  then have "\<not> same_protocols (Protocols x) (decode (marshal_protocols (Protocols x)))"
    unfolding same_protocols_def using p
    by (auto simp: member_protocols intro!: exI [of _ "''amqp''"])
  then show "\<not> round_trip_faithful huge_port"
    by (simp add: round_trip_faithful_def x out same_binding_def member_binding
        map_of_binding_members)
qed

end
